theory Spec2Isabelle
  imports Complex_Main
begin

section \<open>Numbers\<close>

text \<open>
  A TypeScript \<open>number\<close> is an IEEE double. Every finite double is a rational, so
  measurements (positions, sizes, health, damage, speeds, multipliers) are modelled as
  \<^typ>\<open>rat\<close>, with exact \<open>+\<close>, \<open>-\<close> and \<open>*\<close>: the rounding of a
  floating-point result is not modelled, nor are NaN and the infinities. Timestamps
  (results of \<open>Date.now()\<close>) and counters that the code only increments or sets to an
  integer constant (score, level, combo, the kill, shot and hit counters) are
  \<^typ>\<open>int\<close>.
\<close>

definition Math_round :: "rat \<Rightarrow> int" where
  \<comment> \<open>\<open>Math.round\<close>: the nearest integer, a tie going up.\<close>
  "Math_round r = \<lfloor>r + 1 / 2\<rfloor>"

definition Math_floor :: "rat \<Rightarrow> int" where
  "Math_floor r = \<lfloor>r\<rfloor>"

section \<open>types.ts\<close>

record Position =
  pos_x :: rat
  pos_y :: rat

record Size =
  width :: rat
  height :: rat

datatype EnemyType = STARKENT | SCROLL | ZKSYN | TAIKO | LINEA | OP | ARB | POLYGON

record EnemyConfig =
  cfg_type :: EnemyType
  cfg_health :: rat
  cfg_speed :: rat
  cfg_imagePath :: string
  cfg_width :: rat
  cfg_height :: rat
  canShoot :: bool
  shootInterval :: int
  cfg_level :: int
  bulletsPerShot :: "rat option"
  bulletSpeed :: "rat option"

record Bullet =
  b_x :: rat
  b_y :: rat
  b_vx :: rat
  b_vy :: rat
  b_width :: rat
  b_height :: rat
  isPlayerBullet :: bool
  damage :: rat

record GameState =
  score :: int
  level :: int
  playerHealth :: rat
  maxPlayerHealth :: rat
  isGameOver :: bool
  isPaused :: bool
  levelStartTime :: int
  levelDuration :: "int option"
  enemiesKilled :: int
  bulletsShot :: int
  bulletsHit :: int
  gameStartTime :: int
  combo :: int
  comboMultiplier :: rat
  lastKillTime :: int

record ScorePopup =
  sp_x :: rat
  sp_y :: rat
  sp_value :: int
  sp_lifetime :: rat
  sp_maxLifetime :: rat

record Particle =
  pt_x :: rat
  pt_y :: rat
  pt_vx :: rat
  pt_vy :: rat
  pt_lifetime :: rat
  pt_maxLifetime :: rat
  pt_color :: string
  pt_size :: rat

datatype PowerUpType = SPEED_BOOST | RAPID_FIRE | SHIELD | MULTI_SHOT

record PowerUp =
  pu_x :: rat
  pu_y :: rat
  pu_type :: PowerUpType
  pu_lifetime :: rat
  pu_maxLifetime :: rat
  pu_size :: rat

record Boss =
  boss_position :: Position
  boss_size :: Size
  boss_health :: rat
  boss_maxHealth :: rat
  boss_speed :: rat
  boss_lastShotTime :: int
  boss_shootInterval :: int

section \<open>CollisionDetector.ts: rectangles\<close>

definition rectRectCollision :: "Position \<Rightarrow> Size \<Rightarrow> Position \<Rightarrow> Size \<Rightarrow> bool" where
  "rectRectCollision pos1 size1 pos2 size2 \<longleftrightarrow>
     pos_x pos1 < pos_x pos2 + width size2 \<and>
     pos_x pos1 + width size1 > pos_x pos2 \<and>
     pos_y pos1 < pos_y pos2 + height size2 \<and>
     pos_y pos1 + height size1 > pos_y pos2"

section \<open>Base.ts: the player\<close>

record Base =
  position :: Position
  base_size :: Size
  health :: rat
  maxHealth :: rat
  speed :: rat
  imagePath :: string

definition Base_new :: "rat \<Rightarrow> rat \<Rightarrow> Base" where
  \<comment> \<open>The constructor; \<open>loadImage\<close> only touches the image element, which is not modelled.\<close>
  "Base_new canvasWidth canvasHeight =
     \<lparr>position = \<lparr>pos_x = 50, pos_y = canvasHeight / 2 - 60 / 2\<rparr>,
      base_size = \<lparr>width = 60, height = 60\<rparr>,
      health = 100, maxHealth = 100, speed = 7,
      imagePath = ''/images/base-the-shooter.jpg''\<rparr>"

definition moveUp :: "rat \<Rightarrow> rat \<Rightarrow> Base \<Rightarrow> Base" where
  "moveUp canvasHeight speedMultiplier b =
     b\<lparr>position := (position b)\<lparr>pos_y := max 0 (pos_y (position b) - speed b * speedMultiplier)\<rparr>\<rparr>"

definition moveDown :: "rat \<Rightarrow> rat \<Rightarrow> Base \<Rightarrow> Base" where
  "moveDown canvasHeight speedMultiplier b =
     b\<lparr>position := (position b)\<lparr>pos_y :=
         min (canvasHeight - height (base_size b)) (pos_y (position b) + speed b * speedMultiplier)\<rparr>\<rparr>"

definition Base_getCenter :: "Base \<Rightarrow> Position" where
  "Base_getCenter b =
     \<lparr>pos_x = pos_x (position b) + width (base_size b),
      pos_y = pos_y (position b) + height (base_size b) / 2\<rparr>"

definition Base_takeDamage :: "rat \<Rightarrow> Base \<Rightarrow> Base" where
  "Base_takeDamage amount b = b\<lparr>health := max 0 (health b - amount)\<rparr>"

definition Base_isAlive :: "Base \<Rightarrow> bool" where
  "Base_isAlive b \<longleftrightarrow> health b > 0"

definition in_bounds :: "rat \<Rightarrow> Base \<Rightarrow> bool" where
  \<comment> \<open>The range the specification gives for the player's y coordinate.\<close>
  "in_bounds bound b \<longleftrightarrow>
     0 \<le> pos_y (position b) \<and> pos_y (position b) \<le> bound - height (base_size b)"


section \<open>The environment: clock, random numbers, library functions\<close>

text \<open>
  \<open>Date.now()\<close> and \<open>Math.random()\<close> read the outside world. The environment holds
  the two streams of answers and a cursor into each: the n-th call of \<open>Date.now()\<close>
  returns \<open>clock n\<close>, the n-th call of \<open>Math.random()\<close> returns \<open>rnd n\<close>.
  \<open>Math.sqrt\<close>, \<open>Math.cos\<close>, \<open>Math.sin\<close> and \<open>Math.atan2\<close> are library
  functions on doubles; they are parameters of the model.
\<close>

record Env =
  clock :: "nat \<Rightarrow> int"
  ticks :: nat
  rnd :: "nat \<Rightarrow> rat"
  draws :: nat
  sqrt_fn :: "rat \<Rightarrow> rat"
  cos_fn :: "rat \<Rightarrow> rat"
  sin_fn :: "rat \<Rightarrow> rat"
  atan2_fn :: "rat \<Rightarrow> rat \<Rightarrow> rat"

definition Date_now :: "Env \<Rightarrow> int" where
  "Date_now ev = clock ev (ticks ev)"

definition tick :: "Env \<Rightarrow> Env" where
  "tick ev = ev\<lparr>ticks := Suc (ticks ev)\<rparr>"

definition Math_random :: "Env \<Rightarrow> rat" where
  "Math_random ev = rnd ev (draws ev)"

definition draw :: "Env \<Rightarrow> Env" where
  "draw ev = ev\<lparr>draws := Suc (draws ev)\<rparr>"

definition Math_PI :: rat where
  \<comment> \<open>The double nearest to pi.\<close>
  "Math_PI = 884279719003555 / 281474976710656"

definition index_opt :: "'a list \<Rightarrow> int \<Rightarrow> 'a option" where
  \<comment> \<open>\<open>xs[i]\<close>: \<open>undefined\<close> (here \<open>None\<close>) outside the array.\<close>
  "index_opt xs i = (if 0 \<le> i \<and> i < int (length xs) then Some (xs ! nat i) else None)"

definition or_default :: "rat option \<Rightarrow> rat \<Rightarrow> rat" where
  \<comment> \<open>\<open>v || d\<close> on an optional number: \<open>undefined\<close> and 0 are falsy.\<close>
  "or_default v d = (case v of None \<Rightarrow> d | Some r \<Rightarrow> if r = 0 then d else r)"

definition splice1 :: "nat \<Rightarrow> 'a list \<Rightarrow> 'a list" where
  \<comment> \<open>\<open>xs.splice(i, 1)\<close>: removes the element at index i; past the end it removes nothing.\<close>
  "splice1 i xs = take i xs @ drop (Suc i) xs"

fun forEachFrom :: "('s \<Rightarrow> nat) \<Rightarrow> (nat \<Rightarrow> 's \<Rightarrow> 's) \<Rightarrow> nat \<Rightarrow> nat \<Rightarrow> 's \<Rightarrow> 's" where
  "forEachFrom len visit 0 k st = st"
| "forEachFrom len visit (Suc n) k st =
     forEachFrom len visit n (Suc k) (if k < len st then visit k st else st)"

definition forEach :: "('s \<Rightarrow> nat) \<Rightarrow> (nat \<Rightarrow> 's \<Rightarrow> 's) \<Rightarrow> 's \<Rightarrow> 's" where
  \<comment> \<open>\<open>Array.prototype.forEach\<close> on an array that the callback may change in place:
      the number of rounds is the length at the start; round k calls the callback on
      index k when the array, as it is by then, still has that index. \<open>len\<close> reads
      the current length of the array out of the state, \<open>visit k\<close> is the callback
      at index k. When the callback at index k removes the element at k, the element
      that moves into index k is not visited in this pass: the next round is k + 1.\<close>
  "forEach len visit st = forEachFrom len visit (len st) 0 st"

section \<open>Enemy.ts\<close>

record Enemy =
  e_position :: Position
  e_size :: Size
  e_health :: rat
  e_maxHealth :: rat
  e_speed :: rat
  config :: EnemyConfig
  lastShotTime :: int
  verticalDirection :: rat

definition Enemy_new :: "EnemyConfig \<Rightarrow> rat \<Rightarrow> rat \<Rightarrow> Env \<Rightarrow> Enemy \<times> Env" where
  "Enemy_new cfg canvasWidth canvasHeight ev =
     (\<lparr>e_position = \<lparr>pos_x = canvasWidth, pos_y = Math_random ev * (canvasHeight - cfg_height cfg)\<rparr>,
       e_size = \<lparr>width = cfg_width cfg, height = cfg_height cfg\<rparr>,
       e_health = cfg_health cfg, e_maxHealth = cfg_health cfg, e_speed = cfg_speed cfg,
       config = cfg, lastShotTime = 0, verticalDirection = 1\<rparr>, draw ev)"

definition Enemy_update :: "rat \<Rightarrow> rat \<Rightarrow> Enemy \<Rightarrow> Enemy" where
  "Enemy_update canvasWidth canvasHeight e =
     (let x1 = pos_x (e_position e) - e_speed e;
          y1 = pos_y (e_position e) + verticalDirection e * (1 / 2);
          d1 = (if y1 \<le> 0 \<or> y1 \<ge> canvasHeight - height (e_size e)
                then verticalDirection e * (- 1) else verticalDirection e);
          y2 = max 0 (min (canvasHeight - height (e_size e)) y1)
      in e\<lparr>e_position := \<lparr>pos_x = x1, pos_y = y2\<rparr>, verticalDirection := d1\<rparr>)"

definition Enemy_canShoot :: "int \<Rightarrow> Enemy \<Rightarrow> bool" where
  "Enemy_canShoot currentTime e \<longleftrightarrow>
     canShoot (config e) \<and> currentTime - lastShotTime e \<ge> shootInterval (config e)"

definition Enemy_shoot :: "Position \<Rightarrow> Enemy \<Rightarrow> Env \<Rightarrow> Bullet list \<times> Enemy \<times> Env" where
  \<comment> \<open>Returns the bullets, the enemy (its \<open>lastShotTime\<close> updated) and the environment
      after the call of \<open>Date.now()\<close>. \<open>dx / distance\<close> at distance 0 is NaN in
      JavaScript and 0 here.\<close>
  "Enemy_shoot playerPosition e ev =
     (let currentTime = Date_now ev; ev1 = tick ev
      in if \<not> Enemy_canShoot currentTime e then ([], e, ev1)
         else
          (let e1 = e\<lparr>lastShotTime := currentTime\<rparr>;
               perShot = or_default (bulletsPerShot (config e1)) 1;
               bSpeed = or_default (bulletSpeed (config e1)) 4;
               dx = pos_x playerPosition - pos_x (e_position e1);
               dy = pos_y playerPosition - pos_y (e_position e1);
               distance = sqrt_fn ev1 (dx * dx + dy * dy)
           in if perShot = 2 then
                (let angle1 = atan2_fn ev1 (dy - 15) dx;
                     angle2 = atan2_fn ev1 (dy + 15) dx
                 in ([\<lparr>b_x = pos_x (e_position e1),
                        b_y = pos_y (e_position e1) + height (e_size e1) / 2 - 8,
                        b_vx = cos_fn ev1 angle1 * bSpeed, b_vy = sin_fn ev1 angle1 * bSpeed,
                        b_width = 10, b_height = 10, isPlayerBullet = False, damage = 10\<rparr>,
                       \<lparr>b_x = pos_x (e_position e1),
                        b_y = pos_y (e_position e1) + height (e_size e1) / 2 + 8,
                        b_vx = cos_fn ev1 angle2 * bSpeed, b_vy = sin_fn ev1 angle2 * bSpeed,
                        b_width = 10, b_height = 10, isPlayerBullet = False, damage = 10\<rparr>],
                      e1, ev1))
              else
                ([\<lparr>b_x = pos_x (e_position e1),
                   b_y = pos_y (e_position e1) + height (e_size e1) / 2,
                   b_vx = (dx / distance) * bSpeed, b_vy = (dy / distance) * bSpeed,
                   b_width = 8, b_height = 8, isPlayerBullet = False, damage = 10\<rparr>],
                 e1, ev1)))"

definition Enemy_takeDamage :: "rat \<Rightarrow> Enemy \<Rightarrow> Enemy" where
  "Enemy_takeDamage amount e = e\<lparr>e_health := max 0 (e_health e - amount)\<rparr>"

definition Enemy_getCenter :: "Enemy \<Rightarrow> Position" where
  "Enemy_getCenter e =
     \<lparr>pos_x = pos_x (e_position e) + width (e_size e) / 2,
      pos_y = pos_y (e_position e) + height (e_size e) / 2\<rparr>"

definition Enemy_isAlive :: "Enemy \<Rightarrow> bool" where
  "Enemy_isAlive e \<longleftrightarrow> e_health e > 0"

definition Enemy_isOffScreen :: "Enemy \<Rightarrow> bool" where
  "Enemy_isOffScreen e \<longleftrightarrow> pos_x (e_position e) + width (e_size e) < 0"

section \<open>CollisionDetector.ts: entities\<close>

definition bulletEnemyCollision :: "Bullet \<Rightarrow> Enemy \<Rightarrow> bool" where
  "bulletEnemyCollision b e \<longleftrightarrow>
     rectRectCollision \<lparr>pos_x = b_x b, pos_y = b_y b\<rparr> \<lparr>width = b_width b, height = b_height b\<rparr>
       (e_position e) (e_size e)"

definition bulletBaseCollision :: "Bullet \<Rightarrow> Base \<Rightarrow> bool" where
  "bulletBaseCollision b p \<longleftrightarrow>
     rectRectCollision \<lparr>pos_x = b_x b, pos_y = b_y b\<rparr> \<lparr>width = b_width b, height = b_height b\<rparr>
       (position p) (base_size p)"

definition enemyBaseCollision :: "Enemy \<Rightarrow> Base \<Rightarrow> bool" where
  "enemyBaseCollision e p \<longleftrightarrow>
     rectRectCollision (e_position e) (e_size e) (position p) (base_size p)"

section \<open>EnemyFactory.ts\<close>

definition meleeConfig :: "EnemyType \<Rightarrow> string \<Rightarrow> EnemyConfig" where
  \<comment> \<open>The four level-1 entries of the table differ in type and image only.\<close>
  "meleeConfig t img =
     \<lparr>cfg_type = t, cfg_health = 30, cfg_speed = 3, cfg_imagePath = img,
      cfg_width = 50, cfg_height = 50, canShoot = False, shootInterval = 0, cfg_level = 1,
      bulletsPerShot = None, bulletSpeed = None\<rparr>"

definition gunnerConfig :: "EnemyType \<Rightarrow> string \<Rightarrow> EnemyConfig" where
  \<comment> \<open>The two level-2 entries.\<close>
  "gunnerConfig t img =
     \<lparr>cfg_type = t, cfg_health = 20, cfg_speed = 2, cfg_imagePath = img,
      cfg_width = 55, cfg_height = 55, canShoot = True, shootInterval = 1000, cfg_level = 2,
      bulletsPerShot = None, bulletSpeed = None\<rparr>"

definition tankConfig :: "EnemyType \<Rightarrow> string \<Rightarrow> EnemyConfig" where
  \<comment> \<open>The two level-3 entries.\<close>
  "tankConfig t img =
     \<lparr>cfg_type = t, cfg_health = 100, cfg_speed = 2, cfg_imagePath = img,
      cfg_width = 70, cfg_height = 70, canShoot = True, shootInterval = 500, cfg_level = 3,
      bulletsPerShot = Some 2, bulletSpeed = Some 6\<rparr>"

definition enemyConfigs :: "int \<Rightarrow> (EnemyType \<times> EnemyConfig) list option" where
  \<comment> \<open>The table, each level's entries in the order of \<open>Object.keys\<close> (insertion order).\<close>
  "enemyConfigs lvl =
     (if lvl = 1 then Some
        [(STARKENT, meleeConfig STARKENT ''/images/starkent-the-enemy.png''),
         (SCROLL, meleeConfig SCROLL ''/images/scroll-the-enemy.jpg''),
         (ZKSYN, meleeConfig ZKSYN ''/images/zksyn-the-enemy.jpg''),
         (TAIKO, meleeConfig TAIKO ''/images/taiko-the-enemy.png'')]
      else if lvl = 2 then Some
        [(LINEA, gunnerConfig LINEA ''/images/linea-the-enemy.png''),
         (OP, gunnerConfig OP ''/images/op-the-enemy.jpg'')]
      else if lvl = 3 then Some
        [(ARB, tankConfig ARB ''/images/arb-the-enemy.jpg''),
         (POLYGON, tankConfig POLYGON ''/images/polygon-the-enemy.jpg'')]
      else None)"

definition createRandomEnemy :: "int \<Rightarrow> rat \<Rightarrow> rat \<Rightarrow> Env \<Rightarrow> Enemy option \<times> Env" where
  "createRandomEnemy lvl canvasWidth canvasHeight ev =
     (case enemyConfigs lvl of
        None \<Rightarrow> (None, ev)
      | Some configs \<Rightarrow>
          (let enemyTypes = map fst configs
           in if length enemyTypes = 0 then (None, ev)
              else
               (let r = Math_random ev; ev1 = draw ev
                in case index_opt enemyTypes (Math_floor (r * of_nat (length enemyTypes))) of
                     None \<Rightarrow> (None, ev1)
                   | Some randomType \<Rightarrow>
                       (case map_of configs randomType of
                          None \<Rightarrow> (None, ev1)
                        | Some cfg \<Rightarrow>
                            (let (e, ev2) = Enemy_new cfg canvasWidth canvasHeight ev1
                             in (Some e, ev2))))))"

section \<open>GameEngine.ts\<close>

record Engine =
  base :: Base
  enemies :: "Enemy list"
  bullets :: "Bullet list"
  scorePopups :: "ScorePopup list"
  particles :: "Particle list"
  powerUps :: "PowerUp list"
  boss :: "Boss option"
  gameState :: GameState
  canvasWidth :: rat
  canvasHeight :: rat
  lastSpawnTime :: int
  lastPowerUpSpawn :: int
  spawnInterval :: int
  activePowerUps :: "PowerUpType \<rightharpoonup> int"
  baseSpeedMultiplier :: rat
  shootCooldownMultiplier :: rat
  hasShield :: bool
  multiShotCount :: int
  env :: Env

definition levelDurations :: "int \<rightharpoonup> int" where
  \<comment> \<open>The private table, never assigned after its initialiser.\<close>
  "levelDurations = [1 \<mapsto> 30000, 2 \<mapsto> 60000, 3 \<mapsto> 40000]"

definition initialGameState :: "Base \<Rightarrow> int \<Rightarrow> GameState" where
  \<comment> \<open>The object literal that the constructor and \<open>reset\<close> both assign to \<open>gameState\<close>.\<close>
  "initialGameState b now =
     \<lparr>score = 0, level = 1, playerHealth = health b, maxPlayerHealth = maxHealth b,
      isGameOver = False, isPaused = False, levelStartTime = now,
      levelDuration = levelDurations 1, enemiesKilled = 0, bulletsShot = 0, bulletsHit = 0,
      gameStartTime = now, combo = 0, comboMultiplier = 1, lastKillTime = 0\<rparr>"

definition GameEngine_new :: "rat \<Rightarrow> rat \<Rightarrow> Env \<Rightarrow> Engine" where
  \<comment> \<open>The field initialisers, then the constructor's body.\<close>
  "GameEngine_new cw ch ev =
     (let b = Base_new cw ch; now = Date_now ev
      in \<lparr>base = b, enemies = [], bullets = [], scorePopups = [], particles = [],
          powerUps = [], boss = None, gameState = initialGameState b now,
          canvasWidth = cw, canvasHeight = ch,
          lastSpawnTime = 0, lastPowerUpSpawn = 0, spawnInterval = 1000,
          activePowerUps = Map.empty, baseSpeedMultiplier = 1, shootCooldownMultiplier = 1,
          hasShield = False, multiShotCount = 1, env = tick ev\<rparr>)"

definition reset :: "Engine \<Rightarrow> Engine" where
  "reset st =
     (let b = Base_new (canvasWidth st) (canvasHeight st); now = Date_now (env st)
      in st\<lparr>base := b, enemies := [], bullets := [], scorePopups := [], particles := [],
            powerUps := [], boss := None, gameState := initialGameState b now,
            lastSpawnTime := now, lastPowerUpSpawn := now,
            activePowerUps := Map.empty, baseSpeedMultiplier := 1,
            shootCooldownMultiplier := 1, hasShield := False, multiShotCount := 1,
            env := tick (env st)\<rparr>)"

definition updateCombo :: "Engine \<Rightarrow> Engine" where
  "updateCombo st =
     (let currentTime = Date_now (env st); st1 = st\<lparr>env := tick (env st)\<rparr>; g = gameState st1
      in if lastKillTime g > 0 \<and> currentTime - lastKillTime g > 2000
         then st1\<lparr>gameState := g\<lparr>combo := 0, comboMultiplier := 1\<rparr>\<rparr>
         else st1)"

definition spawnEnemies :: "int \<Rightarrow> Engine \<Rightarrow> Engine" where
  "spawnEnemies currentTime st =
     (if currentTime - lastSpawnTime st \<ge> spawnInterval st then
        (let (eo, ev1) = createRandomEnemy (level (gameState st)) (canvasWidth st)
                           (canvasHeight st) (env st);
             st1 = st\<lparr>env := ev1\<rparr>;
             st2 = (case eo of None \<Rightarrow> st1 | Some e \<Rightarrow> st1\<lparr>enemies := enemies st1 @ [e]\<rparr>)
         in st2\<lparr>lastSpawnTime := currentTime,
                spawnInterval := max 500 (1500 - (level (gameState st2) - 1) * 150)\<rparr>)
      else st)"

definition nextLevel :: "Engine \<Rightarrow> Engine" where
  "nextLevel st =
     (let g = gameState st
      in if level g < 3 then
           (let previousLevel = level g;
                t1 = Date_now (env st); ev1 = tick (env st);
                t2 = Date_now ev1; ev2 = tick ev1;
                g1 = g\<lparr>level := level g + 1, levelStartTime := t1,
                       levelDuration := levelDurations (level g + 1)\<rparr>;
                st1 = st\<lparr>gameState := g1, enemies := [], bullets := [],
                         lastSpawnTime := t2, env := ev2\<rparr>
            in if previousLevel = 2 then
                 st1\<lparr>base := (base st1)\<lparr>health := 100, maxHealth := 100\<rparr>,
                     gameState := g1\<lparr>playerHealth := 100, maxPlayerHealth := 100\<rparr>\<rparr>
               else st1)
         else st\<lparr>gameState := g\<lparr>isGameOver := True\<rparr>\<rparr>)"

definition playerBullet :: "Position \<Rightarrow> rat \<Rightarrow> Bullet" where
  \<comment> \<open>The bullet literal of \<open>shoot\<close>, with the vertical velocity as its parameter.\<close>
  "playerBullet center vy =
     \<lparr>b_x = pos_x center, b_y = pos_y center, b_vx = 8, b_vy = vy,
      b_width = 10, b_height = 10, isPlayerBullet = True, damage = 20\<rparr>"

definition shoot :: "Engine \<Rightarrow> Engine" where
  "shoot st =
     (let center = Base_getCenter (base st);
          st1 = (if multiShotCount st > 1 then
                   st\<lparr>bullets := bullets st @
                        map (\<lambda>i. playerBullet center
                                   (((of_nat i - (of_int (multiShotCount st) - 1) / 2) * (3 / 10)) * 8))
                            [0 ..< nat (multiShotCount st)]\<rparr>
                 else st\<lparr>bullets := bullets st @ [playerBullet center 0]\<rparr>)
      in st1\<lparr>gameState := (gameState st1)\<lparr>bulletsShot := bulletsShot (gameState st1) + 1\<rparr>\<rparr>)"

definition powerUpTypes :: "PowerUpType list" where
  "powerUpTypes = [SPEED_BOOST, RAPID_FIRE, SHIELD, MULTI_SHOT]"

definition spawnPowerUp :: "rat \<Rightarrow> rat \<Rightarrow> Engine \<Rightarrow> Engine" where
  \<comment> \<open>\<open>Math.random()\<close> lies in [0, 1), so the index is one of 0..3. Outside that
      contract the source pushes a pickup of type \<open>undefined\<close>; the model pushes none.\<close>
  "spawnPowerUp x y st =
     (let r = Math_random (env st); st1 = st\<lparr>env := draw (env st)\<rparr>
      in case index_opt powerUpTypes (Math_floor (r * of_nat (length powerUpTypes))) of
           None \<Rightarrow> st1
         | Some t \<Rightarrow>
             st1\<lparr>powerUps := powerUps st1 @
                   [\<lparr>pu_x = x, pu_y = y, pu_type = t, pu_lifetime = 0,
                     pu_maxLifetime = 10000, pu_size = 30\<rparr>]\<rparr>)"

definition activatePowerUp :: "PowerUpType \<Rightarrow> Engine \<Rightarrow> Engine" where
  "activatePowerUp t st =
     (let expiration = Date_now (env st) + 10000;
          st1 = st\<lparr>env := tick (env st), activePowerUps := (activePowerUps st)(t \<mapsto> expiration)\<rparr>
      in case t of
           SPEED_BOOST \<Rightarrow> st1\<lparr>baseSpeedMultiplier := 3 / 2\<rparr>
         | RAPID_FIRE \<Rightarrow> st1\<lparr>shootCooldownMultiplier := 1 / 2\<rparr>
         | SHIELD \<Rightarrow> st1\<lparr>hasShield := True\<rparr>
         | MULTI_SHOT \<Rightarrow> st1\<lparr>multiShotCount := 3\<rparr>)"

definition deactivatePowerUp :: "PowerUpType \<Rightarrow> Engine \<Rightarrow> Engine" where
  "deactivatePowerUp t st =
     (case t of
        SPEED_BOOST \<Rightarrow> st\<lparr>baseSpeedMultiplier := 1\<rparr>
      | RAPID_FIRE \<Rightarrow> st\<lparr>shootCooldownMultiplier := 1\<rparr>
      | SHIELD \<Rightarrow> st\<lparr>hasShield := False\<rparr>
      | MULTI_SHOT \<Rightarrow> st\<lparr>multiShotCount := 1\<rparr>)"

definition expirePowerUp :: "int \<Rightarrow> Engine \<Rightarrow> PowerUpType \<Rightarrow> Engine" where
  \<comment> \<open>The callback of \<open>activePowerUps.forEach\<close> in \<open>updatePowerUps\<close>, for the entry of
      type t if the map has one.\<close>
  "expirePowerUp currentTime st t =
     (case activePowerUps st t of
        None \<Rightarrow> st
      | Some expiration \<Rightarrow>
          if currentTime \<ge> expiration then
            (let st1 = deactivatePowerUp t st
             in st1\<lparr>activePowerUps := (activePowerUps st1)(t := None)\<rparr>)
          else st)"

definition agePowerUp :: "PowerUp \<Rightarrow> PowerUp" where
  "agePowerUp p = p\<lparr>pu_lifetime := pu_lifetime p + 16\<rparr>"

definition updatePowerUps :: "int \<Rightarrow> Engine \<Rightarrow> Engine" where
  \<comment> \<open>A JavaScript Map is visited in insertion order, and an entry deleted by the
      callback is not visited again. The callback reads and writes the entry and the
      modifier of its own type only, so the order of the visits does not change the
      result: the model visits the four types in the order of the enum.\<close>
  "updatePowerUps currentTime st =
     (let st1 = foldl (expirePowerUp currentTime) st powerUpTypes
      in st1\<lparr>powerUps := filter (\<lambda>p. pu_lifetime p < pu_maxLifetime p)
                            (map agePowerUp (powerUps st1))\<rparr>)"

definition collectPowerUp :: "nat \<Rightarrow> Engine \<Rightarrow> Engine" where
  \<comment> \<open>The callback of \<open>powerUps.forEach\<close> in \<open>checkPowerUpCollisions\<close>. The sound and the
      optional \<open>onPowerUpCollected\<close> hook of the host are outside the engine.\<close>
  "collectPowerUp i st =
     (let powerUp = powerUps st ! i;
          baseCenter = Base_getCenter (base st);
          distance = sqrt_fn (env st)
                       ((pu_x powerUp - pos_x baseCenter) * (pu_x powerUp - pos_x baseCenter) +
                        (pu_y powerUp - pos_y baseCenter) * (pu_y powerUp - pos_y baseCenter))
      in if distance < pu_size powerUp + 30 then
           (let st1 = activatePowerUp (pu_type powerUp) st
            in st1\<lparr>powerUps := splice1 i (powerUps st1)\<rparr>)
         else st)"

definition checkPowerUpCollisions :: "Engine \<Rightarrow> Engine" where
  "checkPowerUpCollisions st = forEach (\<lambda>s. length (powerUps s)) collectPowerUp st"

subsection \<open>The frame: \<open>update\<close>\<close>

definition enemyTick :: "int \<Rightarrow> nat \<Rightarrow> Engine \<Rightarrow> Engine" where
  \<comment> \<open>The callback of the first \<open>enemies.forEach\<close>: movement, shooting, melee contact.\<close>
  "enemyTick currentTime i st =
     (let e1 = Enemy_update (canvasWidth st) (canvasHeight st) (enemies st ! i);
          (bs, e2, ev1) = (if Enemy_canShoot currentTime e1
                           then Enemy_shoot (Base_getCenter (base st)) e1 (env st)
                           else ([], e1, env st));
          st1 = st\<lparr>enemies := (enemies st)[i := e2], bullets := bullets st @ bs, env := ev1\<rparr>
      in if \<not> canShoot (config e2) \<and> enemyBaseCollision e2 (base st1) then
           (let b1 = Base_takeDamage 5 (base st1)
            in st1\<lparr>base := b1,
                   gameState := (gameState st1)\<lparr>playerHealth := health b1\<rparr>,
                   enemies := (enemies st1)[i := Enemy_takeDamage 100 e2]\<rparr>)
         else st1)"

definition moveBullet :: "Bullet \<Rightarrow> Bullet" where
  "moveBullet b = b\<lparr>b_x := b_x b + b_vx b, b_y := b_y b + b_vy b\<rparr>"

definition agePopup :: "ScorePopup \<Rightarrow> ScorePopup" where
  "agePopup p = p\<lparr>sp_lifetime := sp_lifetime p + 16, sp_y := sp_y p - 1\<rparr>"

definition ageParticle :: "Particle \<Rightarrow> Particle" where
  "ageParticle p =
     p\<lparr>pt_lifetime := pt_lifetime p + 16, pt_x := pt_x p + pt_vx p, pt_y := pt_y p + pt_vy p,
       pt_vy := pt_vy p + 1 / 10, pt_vx := pt_vx p * (98 / 100)\<rparr>"

definition bulletOnScreen :: "rat \<Rightarrow> rat \<Rightarrow> Bullet \<Rightarrow> bool" where
  "bulletOnScreen cw ch b \<longleftrightarrow>
     b_x b > - 50 \<and> b_x b < cw + 50 \<and> b_y b > - 50 \<and> b_y b < ch + 50"

definition comboAtKill :: "int \<Rightarrow> GameState \<Rightarrow> GameState" where
  \<comment> \<open>Lines 155 to 166 of \<open>update\<close>: combo, multiplier and time of the last kill, at a
      kill that reads the clock as \<open>currentTime\<close>.\<close>
  "comboAtKill currentTime g =
     (let timeSinceLastKill = currentTime - lastKillTime g;
          g1 = (if timeSinceLastKill < 2000 \<and> lastKillTime g > 0 then
                  (let c = combo g + 1
                   in g\<lparr>combo := c, comboMultiplier := min (1 + of_int c * (1 / 10)) 3\<rparr>)
                else g\<lparr>combo := 1, comboMultiplier := 1\<rparr>)
      in g1\<lparr>lastKillTime := currentTime\<rparr>)"

definition basePoints :: "GameState \<Rightarrow> int" where
  \<comment> \<open>Line 169.\<close>
  "basePoints g = (if level g = 3 then 500 else 10 * level g)"

definition killPoints :: "GameState \<Rightarrow> int" where
  \<comment> \<open>Line 170.\<close>
  "killPoints g = Math_round (of_int (basePoints g) * comboMultiplier g)"

definition registerKill :: "int \<Rightarrow> GameState \<Rightarrow> GameState" where
  \<comment> \<open>Lines 155 to 173: the writes to \<open>gameState\<close> at a kill.\<close>
  "registerKill currentTime g =
     (let g2 = comboAtKill currentTime g; points = killPoints g2
      in g2\<lparr>score := score g2 + points, enemiesKilled := enemiesKilled g2 + 1,
            bulletsHit := bulletsHit g2 + 1\<rparr>)"

definition particleColors :: "string list" where
  "particleColors = [''#FFD700'', ''#FF6B6B'', ''#4ECDC4'', ''#FFE66D'', ''#FF6B9D'']"

definition addParticle :: "Position \<Rightarrow> Engine \<Rightarrow> nat \<Rightarrow> Engine" where
  \<comment> \<open>One round of the explosion loop: four calls of \<open>Math.random()\<close>, in the order
      speed, maxLifetime, color, size. A color index outside the array (impossible for
      \<open>Math.random()\<close> in [0, 1)) gives \<open>undefined\<close> in the source, the empty string here.\<close>
  "addParticle center st i =
     (let ev0 = env st;
          angle = (Math_PI * 2 * of_nat i) / 15;
          spd = 2 + Math_random ev0 * 3; ev1 = draw ev0;
          maxLife = 500 + Math_random ev1 * 500; ev2 = draw ev1;
          color = (case index_opt particleColors
                          (Math_floor (Math_random ev2 * of_nat (length particleColors))) of
                     None \<Rightarrow> [] | Some c \<Rightarrow> c);
          ev3 = draw ev2;
          sz = 3 + Math_random ev3 * 4; ev4 = draw ev3
      in st\<lparr>particles := particles st @
              [\<lparr>pt_x = pos_x center, pt_y = pos_y center,
                pt_vx = cos_fn ev0 angle * spd, pt_vy = sin_fn ev0 angle * spd,
                pt_lifetime = 0, pt_maxLifetime = maxLife, pt_color = color, pt_size = sz\<rparr>],
            env := ev4\<rparr>)"

definition killEnemy :: "nat \<Rightarrow> Engine \<Rightarrow> Engine" where
  \<comment> \<open>The branch \<open>!enemy.isAlive()\<close> of the bullet-enemy callback, lines 154 to 211.\<close>
  "killEnemy enemyIndex st =
     (let currentTime = Date_now (env st);
          st1 = st\<lparr>env := tick (env st), gameState := registerKill currentTime (gameState st)\<rparr>;
          enemyCenter = Enemy_getCenter (enemies st1 ! enemyIndex);
          points = killPoints (comboAtKill currentTime (gameState st));
          st2 = st1\<lparr>scorePopups := scorePopups st1 @
                      [\<lparr>sp_x = pos_x enemyCenter, sp_y = pos_y enemyCenter, sp_value = points,
                        sp_lifetime = 0, sp_maxLifetime = 1000\<rparr>]\<rparr>;
          st3 = foldl (addParticle enemyCenter) st2 [0 ..< 15];
          r = Math_random (env st3);
          st4 = st3\<lparr>env := draw (env st3)\<rparr>;
          st5 = (if r < 1 / 10 then spawnPowerUp (pos_x enemyCenter) (pos_y enemyCenter) st4
                 else st4)
      in st5\<lparr>enemies := splice1 enemyIndex (enemies st5)\<rparr>)"

definition hitEnemy :: "Bullet \<Rightarrow> nat \<Rightarrow> nat \<Rightarrow> Engine \<Rightarrow> Engine" where
  \<comment> \<open>The callback of the inner \<open>enemies.forEach\<close>, for the bullet object \<open>bullet\<close> that
      the outer callback received at index \<open>bulletIndex\<close>.\<close>
  "hitEnemy bullet bulletIndex enemyIndex st =
     (let enemy = enemies st ! enemyIndex
      in if bulletEnemyCollision bullet enemy then
           (let enemy1 = Enemy_takeDamage (damage bullet) enemy;
                st1 = st\<lparr>enemies := (enemies st)[enemyIndex := enemy1],
                         bullets := splice1 bulletIndex (bullets st)\<rparr>
            in if \<not> Enemy_isAlive enemy1 then killEnemy enemyIndex st1 else st1)
         else st)"

definition bulletVsEnemies :: "nat \<Rightarrow> Engine \<Rightarrow> Engine" where
  \<comment> \<open>The callback of the outer \<open>bullets.forEach\<close> of the player-bullet pass.\<close>
  "bulletVsEnemies bulletIndex st =
     (let bullet = bullets st ! bulletIndex
      in if isPlayerBullet bullet
         then forEach (\<lambda>s. length (enemies s)) (hitEnemy bullet bulletIndex) st
         else st)"

definition bulletVsBase :: "nat \<Rightarrow> Engine \<Rightarrow> Engine" where
  \<comment> \<open>The callback of \<open>bullets.forEach\<close> in the enemy-bullet pass.\<close>
  "bulletVsBase bulletIndex st =
     (let bullet = bullets st ! bulletIndex
      in if \<not> isPlayerBullet bullet \<and> bulletBaseCollision bullet (base st) then
           (let st1 = (if hasShield st then st\<lparr>hasShield := False\<rparr>
                       else st\<lparr>base := Base_takeDamage (damage bullet) (base st)\<rparr>);
                st2 = st1\<lparr>gameState := (gameState st1)\<lparr>playerHealth := health (base st1)\<rparr>,
                          bullets := splice1 bulletIndex (bullets st1)\<rparr>
            in if \<not> Base_isAlive (base st2)
               then st2\<lparr>gameState := (gameState st2)\<lparr>isGameOver := True\<rparr>\<rparr>
               else st2)
         else st)"

definition periodicPowerUp :: "int \<Rightarrow> Engine \<Rightarrow> Engine" where
  \<comment> \<open>Lines 250 to 258.\<close>
  "periodicPowerUp currentTime st =
     (if currentTime - lastPowerUpSpawn st > 15000 then
        (let r = Math_random (env st); st1 = st\<lparr>env := draw (env st)\<rparr>
         in if r < 3 / 10 then
              (let r2 = Math_random (env st1); st2 = st1\<lparr>env := draw (env st1)\<rparr>;
                   st3 = spawnPowerUp (canvasWidth st2 - 50) (r2 * (canvasHeight st2 - 50)) st2
               in st3\<lparr>lastPowerUpSpawn := currentTime\<rparr>)
            else st1)
      else st)"

definition frame :: "int \<Rightarrow> Engine \<Rightarrow> Engine" where
  \<comment> \<open>Lines 84 to 261: the body of \<open>update\<close> after the level check, \<open>currentTime\<close> being
      the clock value read at line 74.\<close>
  "frame currentTime st0 =
     (let st1 = spawnEnemies currentTime st0;
          st2 = forEach (\<lambda>s. length (enemies s)) (enemyTick currentTime) st1;
          st3 = st2\<lparr>bullets := map moveBullet (bullets st2)\<rparr>;
          st4 = updateCombo st3;
          st5 = st4\<lparr>scorePopups := filter (\<lambda>p. sp_lifetime p < sp_maxLifetime p)
                                      (map agePopup (scorePopups st4))\<rparr>;
          st6 = st5\<lparr>particles := filter (\<lambda>p. pt_lifetime p < pt_maxLifetime p)
                                    (map ageParticle (particles st5))\<rparr>;
          st7 = st6\<lparr>bullets := filter (bulletOnScreen (canvasWidth st6) (canvasHeight st6))
                                  (bullets st6)\<rparr>;
          st8 = st7\<lparr>enemies := filter (\<lambda>e. \<not> Enemy_isOffScreen e) (enemies st7)\<rparr>;
          st9 = forEach (\<lambda>s. length (bullets s)) bulletVsEnemies st8;
          st10 = forEach (\<lambda>s. length (bullets s)) bulletVsBase st9;
          st11 = updatePowerUps currentTime st10;
          st12 = checkPowerUpCollisions st11;
          st13 = periodicPowerUp currentTime st12
      in st13\<lparr>gameState := (gameState st13)\<lparr>playerHealth := health (base st13)\<rparr>\<rparr>)"

definition levelElapsed :: "int \<Rightarrow> Engine \<Rightarrow> bool" where
  \<comment> \<open>\<open>levelElapsed >= this.gameState.levelDuration\<close>; against \<open>undefined\<close> (a level
      with no entry in the table) the comparison is false.\<close>
  "levelElapsed currentTime st \<longleftrightarrow>
     (case levelDuration (gameState st) of
        None \<Rightarrow> False
      | Some d \<Rightarrow> currentTime - levelStartTime (gameState st) \<ge> d)"

definition update :: "Engine \<Rightarrow> Engine" where
  "update st =
     (if isPaused (gameState st) \<or> isGameOver (gameState st) then st
      else
       (let currentTime = Date_now (env st); st1 = st\<lparr>env := tick (env st)\<rparr>
        in if levelElapsed currentTime st1 then nextLevel st1
           else frame currentTime st1))"

subsection \<open>The calls of the host\<close>

text \<open>
  The host (the canvas loop and the game component) drives the engine through
  \<open>update\<close>, \<open>shoot\<close>, \<open>reset\<close>, the player's \<open>moveUp\<close> and \<open>moveDown\<close>, and by
  flipping \<open>gameState.isPaused\<close>.
\<close>

datatype Call = Update | Shoot | MoveUp rat rat | MoveDown rat rat | TogglePause | Reset

fun exec :: "Call \<Rightarrow> Engine \<Rightarrow> Engine" where
  "exec Update st = update st"
| "exec Shoot st = shoot st"
| "exec (MoveUp bound m) st = st\<lparr>base := moveUp bound m (base st)\<rparr>"
| "exec (MoveDown bound m) st = st\<lparr>base := moveDown bound m (base st)\<rparr>"
| "exec TogglePause st = st\<lparr>gameState := (gameState st)\<lparr>isPaused := \<not> isPaused (gameState st)\<rparr>\<rparr>"
| "exec Reset st = reset st"

inductive reachable :: "Engine \<Rightarrow> bool" where
  start: "reachable (GameEngine_new cw ch ev)"
| step: "reachable st \<Longrightarrow> reachable (exec c st)"

section \<open>Notions of the claims and of the proofs\<close>

definition extents_overlap :: "rat \<Rightarrow> rat \<Rightarrow> rat \<Rightarrow> rat \<Rightarrow> bool" where
  \<comment> \<open>The open intervals \<open>(a, a + w)\<close> and \<open>(b, b + v)\<close> share a point.\<close>
  "extents_overlap a w b v \<longleftrightarrow> max a b < min (a + w) (b + v)"

definition extents_meet :: "rat \<Rightarrow> rat \<Rightarrow> rat \<Rightarrow> rat \<Rightarrow> bool" where
  \<comment> \<open>The closed intervals \<open>[a, a + w]\<close> and \<open>[b, b + v]\<close> share a point: the extents
      overlap or touch.\<close>
  "extents_meet a w b v \<longleftrightarrow> max a b \<le> min (a + w) (b + v)"

definition sansHealth :: "GameState \<Rightarrow> GameState" where
  "sansHealth g = g\<lparr>playerHealth := 0, isGameOver := False\<rparr>"

definition modifiers :: "Engine \<Rightarrow> (PowerUpType \<rightharpoonup> int) \<times> rat \<times> rat \<times> bool \<times> int" where
  "modifiers st = (activePowerUps st, baseSpeedMultiplier st, shootCooldownMultiplier st,
     hasShield st, multiShotCount st)"


definition running :: "Engine \<Rightarrow> bool" where
  "running st \<longleftrightarrow> \<not> isPaused (gameState st) \<and> \<not> isGameOver (gameState st)"

definition frameHead :: "int \<Rightarrow> Engine \<Rightarrow> Engine" where
  "frameHead currentTime st0 =
     (let st1 = spawnEnemies currentTime st0;
          st2 = forEach (\<lambda>s. length (enemies s)) (enemyTick currentTime) st1
      in st2\<lparr>bullets := map moveBullet (bullets st2)\<rparr>)"

definition frameTail :: "int \<Rightarrow> Engine \<Rightarrow> Engine" where
  "frameTail currentTime st4 =
     (let st5 = st4\<lparr>scorePopups := filter (\<lambda>p. sp_lifetime p < sp_maxLifetime p)
                                      (map agePopup (scorePopups st4))\<rparr>;
          st6 = st5\<lparr>particles := filter (\<lambda>p. pt_lifetime p < pt_maxLifetime p)
                                    (map ageParticle (particles st5))\<rparr>;
          st7 = st6\<lparr>bullets := filter (bulletOnScreen (canvasWidth st6) (canvasHeight st6))
                                  (bullets st6)\<rparr>;
          st8 = st7\<lparr>enemies := filter (\<lambda>e. \<not> Enemy_isOffScreen e) (enemies st7)\<rparr>;
          st9 = forEach (\<lambda>s. length (bullets s)) bulletVsEnemies st8;
          st10 = forEach (\<lambda>s. length (bullets s)) bulletVsBase st9;
          st11 = updatePowerUps currentTime st10;
          st12 = checkPowerUpCollisions st11;
          st13 = periodicPowerUp currentTime st12
      in st13\<lparr>gameState := (gameState st13)\<lparr>playerHealth := health (base st13)\<rparr>\<rparr>)"


definition graze :: "Bullet \<Rightarrow> Enemy \<Rightarrow> Enemy" where
  "graze b e = (if bulletEnemyCollision b e then Enemy_takeDamage (damage b) e else e)"



definition powerInv :: "Engine \<Rightarrow> bool" where
  "powerInv st \<longleftrightarrow>
     baseSpeedMultiplier st = (if activePowerUps st SPEED_BOOST = None then 1 else 3 / 2) \<and>
     shootCooldownMultiplier st = (if activePowerUps st RAPID_FIRE = None then 1 else 1 / 2) \<and>
     multiShotCount st = (if activePowerUps st MULTI_SHOT = None then 1 else 3) \<and>
     (hasShield st \<longrightarrow> activePowerUps st SHIELD \<noteq> None)"

definition near :: "PowerUp \<Rightarrow> Engine \<Rightarrow> bool" where
  "near p st \<longleftrightarrow>
     sqrt_fn (env st)
       ((pu_x p - pos_x (Base_getCenter (base st))) * (pu_x p - pos_x (Base_getCenter (base st))) +
        (pu_y p - pos_y (Base_getCenter (base st))) * (pu_y p - pos_y (Base_getCenter (base st))))
     < pu_size p + 30"

definition boosted :: "PowerUpType \<Rightarrow> Engine \<Rightarrow> bool" where
  "boosted t st =
     (case t of
        SPEED_BOOST \<Rightarrow> baseSpeedMultiplier st = 3 / 2
      | RAPID_FIRE \<Rightarrow> shootCooldownMultiplier st = 1 / 2
      | SHIELD \<Rightarrow> hasShield st
      | MULTI_SHOT \<Rightarrow> multiShotCount st = 3)"

definition baseline :: "PowerUpType \<Rightarrow> Engine \<Rightarrow> bool" where
  "baseline t st =
     (case t of
        SPEED_BOOST \<Rightarrow> baseSpeedMultiplier st = 1
      | RAPID_FIRE \<Rightarrow> shootCooldownMultiplier st = 1
      | SHIELD \<Rightarrow> \<not> hasShield st
      | MULTI_SHOT \<Rightarrow> multiShotCount st = 1)"

definition live :: "int \<Rightarrow> (PowerUpType \<rightharpoonup> int) \<Rightarrow> (PowerUpType \<rightharpoonup> int)" where
  "live now m = (\<lambda>t. case m t of None \<Rightarrow> None | Some e \<Rightarrow> if e \<le> now then None else Some e)"

subsection \<open>Concrete states\<close>

text \<open>
  The states at which the theorems below are instantiated and the counterexamples
  evaluated. All live on the canvas of the host, 800 by 600, with a clock that stands
  still at \<open>now\<close> and random numbers that are all 1/2 (no power-up is spawned). The
  library functions are stand-ins: the square root is the identity, which is exact at 0,
  the only argument it receives in these states; cosine and sine are constant, and enter
  nothing but the velocities of explosion particles; no enemy shoots, so \<open>atan2\<close> is
  never called. Positions are those of a first contact: a bullet or an enemy that did
  not overlap its target before the frame and does after its move, or, for a statement
  about a callback, the positions after the move.
\<close>

definition quietEnv :: "int \<Rightarrow> Env" where
  "quietEnv now =
     \<lparr>clock = (\<lambda>n. now), ticks = 0, rnd = (\<lambda>n. 1 / 2), draws = 0,
      sqrt_fn = (\<lambda>q. q), cos_fn = (\<lambda>a. 1), sin_fn = (\<lambda>a. 0), atan2_fn = (\<lambda>a b. 0)\<rparr>"

definition pickupEnv :: Env where
  \<comment> \<open>The clock stands at 20000; the third random number lets the periodic power-up
      spawn, the fourth puts it at the player's height, the fifth makes it a speed boost.\<close>
  "pickupEnv = (quietEnv 20000)\<lparr>rnd := (\<lambda>n. if n = 2 then 1 / 10 else if n = 3 then 6 / 11
                                        else if n = 4 then 0 else 1 / 2)\<rparr>"

definition midGame :: "int \<Rightarrow> int \<Rightarrow> Engine" where
  \<comment> \<open>An engine at level 1 whose game started at \<open>start\<close>, whose clock reads \<open>now\<close>
      and that has just spawned an enemy.\<close>
  "midGame start now =
     (let st = GameEngine_new 800 600 (quietEnv now)
      in st\<lparr>gameState := (gameState st)\<lparr>levelStartTime := start, gameStartTime := start\<rparr>,
            lastSpawnTime := now, spawnInterval := 1500\<rparr>)"

definition atLevel :: "int \<Rightarrow> int \<Rightarrow> Engine \<Rightarrow> Engine" where
  \<comment> \<open>The same engine at level \<open>lvl\<close>, which started at \<open>levelStart\<close>.\<close>
  "atLevel lvl levelStart st =
     st\<lparr>gameState := (gameState st)\<lparr>level := lvl, levelDuration := levelDurations lvl,
          levelStartTime := levelStart\<rparr>\<rparr>"

definition enemyAt :: "EnemyConfig \<Rightarrow> rat \<Rightarrow> rat \<Rightarrow> rat \<Rightarrow> int \<Rightarrow> Enemy" where
  \<comment> \<open>An enemy of the given configuration at (x, y), with health h, that last shot
      at \<open>shot\<close>.\<close>
  "enemyAt cfg x y h shot =
     (fst (Enemy_new cfg 800 600 (quietEnv 0)))
       \<lparr>e_position := \<lparr>pos_x = x, pos_y = y\<rparr>, e_health := h, lastShotTime := shot\<rparr>"

definition enemyBullet :: "rat \<Rightarrow> rat \<Rightarrow> Bullet" where
  \<comment> \<open>A bullet of a level-2 enemy flying straight to the left.\<close>
  "enemyBullet x y =
     \<lparr>b_x = x, b_y = y, b_vx = - 4, b_vy = 0, b_width = 8, b_height = 8,
      isPlayerBullet = False, damage = 10\<rparr>"

definition streak :: "int \<Rightarrow> Engine \<Rightarrow> Engine" where
  \<comment> \<open>Two kills at level 1, the second less than 2000 ms after the first, the last one
      at \<open>lastKill\<close>: combo 2, multiplier 1.2, score 10 + 12.\<close>
  "streak lastKill st =
     st\<lparr>gameState := (gameState st)\<lparr>combo := 2, comboMultiplier := 6 / 5,
          lastKillTime := lastKill, enemiesKilled := 2, bulletsHit := 2, bulletsShot := 4,
          score := 22\<rparr>\<rparr>"

definition killState :: "rat \<Rightarrow> rat \<Rightarrow> Engine" where
  \<comment> \<open>Level 1 at time 5000, one kill so far, at 4500. A melee enemy with 10 health
      left stands at x = ex, a player bullet flies at x = bx.\<close>
  "killState bx ex =
     (let st = midGame 1000 5000
      in st\<lparr>enemies := [enemyAt (meleeConfig ZKSYN ''/images/zksyn-the-enemy.jpg'') ex 100 10 0],
            bullets := [playerBullet \<lparr>pos_x = bx, pos_y = 120\<rparr> 0],
            gameState := (gameState st)\<lparr>combo := 1, lastKillTime := 4500,
              enemiesKilled := 1, bulletsHit := 1, bulletsShot := 4, score := 10\<rparr>\<rparr>)"


definition transitionState :: "int \<Rightarrow> int \<Rightarrow> Engine" where
  \<comment> \<open>Time 200000; the level \<open>lvl\<close>, of the given duration, started exactly that long
      ago. The last kill of the streak was at 190000 and the player is at health 35.\<close>
  "transitionState lvl duration =
     (let st = streak 190000 (midGame (200000 - duration) 200000)
      in st\<lparr>gameState := (gameState st)\<lparr>level := lvl, levelDuration := Some duration,
               gameStartTime := 200000 - duration - (if lvl = 1 then 0 else if lvl = 2 then 30000
                                                      else 90000),
               playerHealth := 35\<rparr>,
            base := (base st)\<lparr>health := 35\<rparr>\<rparr>)"

definition shieldState :: "bool \<Rightarrow> rat \<Rightarrow> Engine" where
  \<comment> \<open>Level 2 at time 35000, with an enemy bullet at x = bx on the player's height
      and, if \<open>shielded\<close>, a shield collected at 32000.\<close>
  "shieldState shielded bx =
     (atLevel 2 31000 (midGame 1000 35000))
       \<lparr>bullets := [enemyBullet bx 296],
        hasShield := shielded,
        activePowerUps := (if shielded then [SHIELD \<mapsto> 42000] else Map.empty)\<rparr>"

definition meleeState :: Engine where
  \<comment> \<open>Level 1 at time 5000: a melee enemy at full health is one step away from the
      player, whose rectangle begins at x = 50 and ends at x = 110.\<close>
  "meleeState =
     (midGame 1000 5000)
       \<lparr>enemies := [enemyAt (meleeConfig STARKENT ''/images/starkent-the-enemy.png'') 110 275 30 0]\<rparr>"

definition twoGunners :: "rat \<Rightarrow> rat \<Rightarrow> Engine" where
  \<comment> \<open>Level 2 at time 35000: two enemies of health 20 at x = ex and x = ex + 2, which
      shot 500 ms ago, and one player bullet at x = bx.\<close>
  "twoGunners bx ex =
     (atLevel 2 31000 (midGame 1000 35000))
       \<lparr>enemies := [enemyAt (gunnerConfig LINEA ''/images/linea-the-enemy.png'') ex 100 20 34500,
                    enemyAt (gunnerConfig OP ''/images/op-the-enemy.jpg'') (ex + 2) 110 20 34500],
        bullets := [playerBullet \<lparr>pos_x = bx, pos_y = 120\<rparr> 0]\<rparr>"

definition twoTanks :: Engine where
  \<comment> \<open>Level 3 at time 95000, in the bullet pass: two enemies of health 100 under the
      first of three player bullets.\<close>
  "twoTanks =
     (atLevel 3 91000 (midGame 1000 95000))
       \<lparr>enemies := [enemyAt (tankConfig ARB ''/images/arb-the-enemy.jpg'') 298 100 100 94800,
                    enemyAt (tankConfig POLYGON ''/images/polygon-the-enemy.jpg'') 300 110 100 94800],
        bullets := [playerBullet \<lparr>pos_x = 294, pos_y = 120\<rparr> 0,
                    playerBullet \<lparr>pos_x = 206, pos_y = 400\<rparr> 0,
                    playerBullet \<lparr>pos_x = 118, pos_y = 500\<rparr> 0]\<rparr>"

definition pickupState :: Engine where
  \<comment> \<open>Level 1 at time 35000: a speed boost collected at 27000 is active, and a second
      one lies on the player's centre (110, 300).\<close>
  "pickupState =
     (midGame 20000 35000)
       \<lparr>powerUps := [\<lparr>pu_x = 110, pu_y = 300, pu_type = SPEED_BOOST, pu_lifetime = 0,
                      pu_maxLifetime = 10000, pu_size = 30\<rparr>],
        activePowerUps := [SPEED_BOOST \<mapsto> 37000],
        baseSpeedMultiplier := 3 / 2\<rparr>"

definition expiringState :: Engine where
  \<comment> \<open>Level 1 at time 37000, the moment the rapid fire collected at 27000 expires.\<close>
  "expiringState =
     (midGame 20000 37000)
       \<lparr>activePowerUps := [RAPID_FIRE \<mapsto> 37000], shootCooldownMultiplier := 1 / 2\<rparr>"

definition twoBullets :: Engine where
  \<comment> \<open>Level 2 at time 35000: two enemy bullets one move away from the player's right
      edge (x = 110); the second flies along the player's upper edge (y = 270).\<close>
  "twoBullets =
     (atLevel 2 31000 (midGame 1000 35000))
       \<lparr>bullets := [enemyBullet 112 296, enemyBullet 113 264]\<rparr>"

definition threeGunners :: "rat \<Rightarrow> rat \<Rightarrow> Engine" where
  \<comment> \<open>\<open>twoGunners\<close> with a third enemy of health 20, at x = ex + 4.\<close>
  "threeGunners bx ex =
     (twoGunners bx ex)
       \<lparr>enemies := enemies (twoGunners bx ex) @
          [enemyAt (gunnerConfig LINEA ''/images/linea-the-enemy.png'') (ex + 4) 90 20 34500]\<rparr>"

definition volley :: Engine where
  \<comment> \<open>Level 3 at time 95000: two enemies of health 100, and the three bullets of a
      multi-shot fired 22 frames ago from (110, 160), one move away from the enemies.\<close>
  "volley =
     (atLevel 3 91000 (midGame 1000 95000))
       \<lparr>enemies := [enemyAt (tankConfig ARB ''/images/arb-the-enemy.jpg'') 300 100 100 94800,
                    enemyAt (tankConfig POLYGON ''/images/polygon-the-enemy.jpg'') 302 110 100 94800],
        bullets := [playerBullet \<lparr>pos_x = 286, pos_y = 536 / 5\<rparr> (- (12 / 5)),
                    playerBullet \<lparr>pos_x = 286, pos_y = 160\<rparr> 0,
                    playerBullet \<lparr>pos_x = 286, pos_y = 1064 / 5\<rparr> (12 / 5)]\<rparr>"

definition run :: "Call list \<Rightarrow> Engine \<Rightarrow> Engine" where
  \<comment> \<open>The calls of the host, one after the other.\<close>
  "run cs st = foldl (\<lambda>s c. exec c s) st cs"

section \<open>Properties of the steps\<close>

subsection \<open>Fields each step leaves alone\<close>

lemma modifiers_updates [simp]:
  "modifiers (st\<lparr>env := ev\<rparr>) = modifiers st"
  "modifiers (st\<lparr>gameState := g\<rparr>) = modifiers st"
  "modifiers (st\<lparr>scorePopups := sp\<rparr>) = modifiers st"
  "modifiers (st\<lparr>particles := pt\<rparr>) = modifiers st"
  "modifiers (st\<lparr>powerUps := pu\<rparr>) = modifiers st"
  "modifiers (st\<lparr>enemies := es\<rparr>) = modifiers st"
  "modifiers (st\<lparr>bullets := bs\<rparr>) = modifiers st"
  "modifiers (st\<lparr>base := b\<rparr>) = modifiers st"
  "modifiers (st\<lparr>lastSpawnTime := t\<rparr>) = modifiers st"
  "modifiers (st\<lparr>spawnInterval := t\<rparr>) = modifiers st"
  "modifiers (st\<lparr>lastPowerUpSpawn := t\<rparr>) = modifiers st"
  by (simp_all add: modifiers_def)

lemma forEachFrom_preserve:
  "(\<And>k s. f (visit k s) = f s) \<Longrightarrow> f (forEachFrom len visit n k st) = f st"
  by (induction n arbitrary: k st) simp_all

lemma forEachFrom_invariant:
  "(\<And>k s. P s \<Longrightarrow> k < len s \<Longrightarrow> P (visit k s)) \<Longrightarrow> P st \<Longrightarrow> P (forEachFrom len visit n k st)"
  by (induction n arbitrary: k st) simp_all

lemma forEach_preserve:
  "(\<And>k s. f (visit k s) = f s) \<Longrightarrow> f (forEach len visit st) = f st"
  by (simp add: forEach_def forEachFrom_preserve)

lemma forEach_invariant:
  "(\<And>k s. P s \<Longrightarrow> k < len s \<Longrightarrow> P (visit k s)) \<Longrightarrow> P st \<Longrightarrow> P (forEach len visit st)"
  by (simp add: forEach_def forEachFrom_invariant)


lemma modifiers_spawnEnemies: "modifiers (spawnEnemies t st) = modifiers st"
  by (simp add: spawnEnemies_def Let_def split: prod.split option.split)


lemma modifiers_enemyTick: "modifiers (enemyTick t i st) = modifiers st"
  by (simp add: enemyTick_def Let_def split: prod.split)


lemma modifiers_addParticles: "modifiers (foldl (addParticle c) st xs) = modifiers st"
  by (induction xs arbitrary: st) (simp_all add: addParticle_def Let_def)

lemma enemies_addParticles: "enemies (foldl (addParticle c) st xs) = enemies st"
  by (induction xs arbitrary: st) (simp_all add: addParticle_def Let_def)

lemma bullets_addParticles: "bullets (foldl (addParticle c) st xs) = bullets st"
  by (induction xs arbitrary: st) (simp_all add: addParticle_def Let_def)


lemma modifiers_spawnPowerUp: "modifiers (spawnPowerUp x y st) = modifiers st"
  by (simp add: spawnPowerUp_def Let_def split: option.split)

lemma enemies_spawnPowerUp: "enemies (spawnPowerUp x y st) = enemies st"
  by (simp add: spawnPowerUp_def Let_def split: option.split)

lemma bullets_spawnPowerUp: "bullets (spawnPowerUp x y st) = bullets st"
  by (simp add: spawnPowerUp_def Let_def split: option.split)


lemma modifiers_killEnemy: "modifiers (killEnemy i st) = modifiers st"
  by (simp add: killEnemy_def Let_def modifiers_addParticles modifiers_spawnPowerUp)

lemma enemies_killEnemy: "enemies (killEnemy i st) = splice1 i (enemies st)"
  by (simp add: killEnemy_def Let_def enemies_addParticles enemies_spawnPowerUp)

lemma bullets_killEnemy: "bullets (killEnemy i st) = bullets st"
  by (simp add: killEnemy_def Let_def bullets_addParticles bullets_spawnPowerUp)


lemma modifiers_hitEnemy: "modifiers (hitEnemy b bi i st) = modifiers st"
  by (simp add: hitEnemy_def Let_def modifiers_killEnemy)

lemma modifiers_bulletVsEnemies: "modifiers (bulletVsEnemies bi st) = modifiers st"
  by (simp add: bulletVsEnemies_def Let_def forEach_preserve modifiers_hitEnemy)



lemma modifiers_updateCombo: "modifiers (updateCombo st) = modifiers st"
  by (simp add: updateCombo_def Let_def)







lemma modifiers_periodicPowerUp: "modifiers (periodicPowerUp t st) = modifiers st"
  by (simp add: periodicPowerUp_def Let_def modifiers_spawnPowerUp)

subsection \<open>Invariants carried through a frame, and the bounds of the multiplier\<close>



lemma frame_split: "frame t st = frameTail t (updateCombo (frameHead t st))"
  by (simp add: frame_def frameHead_def frameTail_def Let_def)

lemma sansHealth_refl_update [simp]:
  "sansHealth (g\<lparr>playerHealth := h\<rparr>) = sansHealth g"
  "sansHealth (g\<lparr>isGameOver := b\<rparr>) = sansHealth g"
  by (simp_all add: sansHealth_def)










subsection \<open>When the multiplier rises\<close>





subsection \<open>Enemies that survive a bullet\<close>

lemma funpow_splice1: "(splice1 i ^^ c) xs = take i xs @ drop (i + c) xs"
proof (induction c arbitrary: xs)
  case 0
  show ?case by simp
next
  case (Suc c)
  have "(splice1 i ^^ Suc c) xs = (splice1 i ^^ c) (splice1 i xs)"
    by (simp add: funpow_swap1)
  also have "\<dots> = take i (splice1 i xs) @ drop (i + c) (splice1 i xs)"
    by (rule Suc.IH)
  also have "\<dots> = take i xs @ drop (i + Suc c) xs"
    by (cases "i \<le> length xs") (simp_all add: splice1_def min_def)
  finally show ?case .
qed

lemma hitEnemy_survivor:
  assumes "k < length (enemies st)"
    and "bulletEnemyCollision b (enemies st ! k) \<longrightarrow> damage b < e_health (enemies st ! k)"
  shows "hitEnemy b bi k st =
     st\<lparr>enemies := (enemies st)[k := graze b (enemies st ! k)],
        bullets := (if bulletEnemyCollision b (enemies st ! k) then splice1 bi (bullets st)
                    else bullets st)\<rparr>"
  using assms
  by (simp add: hitEnemy_def Let_def graze_def Enemy_isAlive_def Enemy_takeDamage_def)

lemma hitLoop_survivors:
  assumes "\<forall>e \<in> set (drop k (enemies st)). bulletEnemyCollision b e \<longrightarrow> damage b < e_health e"
  shows "forEachFrom (\<lambda>s. length (enemies s)) (hitEnemy b bi) n k st =
     st\<lparr>enemies := take k (enemies st) @ map (graze b) (take n (drop k (enemies st))) @
                     drop (k + n) (enemies st),
        bullets := (splice1 bi ^^ length (filter (bulletEnemyCollision b)
                      (take n (drop k (enemies st))))) (bullets st)\<rparr>"
  using assms
proof (induction n arbitrary: k st)
  case 0
  show ?case by simp
next
  case (Suc n)
  show ?case
  proof (cases "k < length (enemies st)")
    case False
    then show ?thesis using Suc.IH [of "Suc k" st] by simp
  next
    case True
    let ?es = "enemies st"
    let ?e = "?es ! k"
    have mem: "?e \<in> set (drop k ?es)"
      using True by (metis Cons_nth_drop_Suc list.set_intros(1))
    have surv: "bulletEnemyCollision b ?e \<longrightarrow> damage b < e_health ?e"
      using Suc.prems mem by blast
    let ?st1 = "hitEnemy b bi k st"
    have st1: "?st1 = st\<lparr>enemies := ?es[k := graze b ?e],
        bullets := (if bulletEnemyCollision b ?e then splice1 bi (bullets st) else bullets st)\<rparr>"
      by (rule hitEnemy_survivor [OF True surv])
    have dropS: "drop (Suc k) (enemies ?st1) = drop (Suc k) ?es"
      by (simp add: st1)
    have "set (drop (Suc k) ?es) \<subseteq> set (drop k ?es)"
      by (metis set_drop_subset_set_drop Suc_n_not_le_n nat_le_linear)
    then have prem1: "\<forall>e \<in> set (drop (Suc k) (enemies ?st1)).
        bulletEnemyCollision b e \<longrightarrow> damage b < e_health e"
      using Suc.prems dropS by auto
    have split: "take (Suc n) (drop k ?es) = ?e # take n (drop (Suc k) ?es)"
      using True by (simp add: Cons_nth_drop_Suc [symmetric])
    have tk: "take (Suc k) (?es[k := graze b ?e]) = take k ?es @ [graze b ?e]"
      using True by (simp add: take_Suc_conv_app_nth)
    have "forEachFrom (\<lambda>s. length (enemies s)) (hitEnemy b bi) (Suc n) k st =
          forEachFrom (\<lambda>s. length (enemies s)) (hitEnemy b bi) n (Suc k) ?st1"
      using True by simp
    also have "\<dots> = ?st1\<lparr>enemies := take (Suc k) (enemies ?st1) @
          map (graze b) (take n (drop (Suc k) (enemies ?st1))) @ drop (Suc k + n) (enemies ?st1),
        bullets := (splice1 bi ^^ length (filter (bulletEnemyCollision b)
                      (take n (drop (Suc k) (enemies ?st1))))) (bullets ?st1)\<rparr>"
      by (rule Suc.IH [OF prem1])
    also have "\<dots> = st\<lparr>enemies := take k ?es @ map (graze b) (take (Suc n) (drop k ?es)) @
                     drop (k + Suc n) ?es,
        bullets := (splice1 bi ^^ length (filter (bulletEnemyCollision b)
                      (take (Suc n) (drop k ?es)))) (bullets st)\<rparr>"
      unfolding split by (simp add: st1 tk funpow_swap1)
    finally show ?thesis .
  qed
qed

subsection \<open>The clock and the decay of the combo\<close>



lemma levelElapsed_env [simp]: "levelElapsed t (st\<lparr>env := ev\<rparr>) = levelElapsed t st"
  by (simp add: levelElapsed_def split: option.split)







subsection \<open>Levels\<close>









lemma update_transition:
  assumes "running st" and "levelElapsed (Date_now (env st)) st"
  shows "update st = nextLevel (st\<lparr>env := tick (env st)\<rparr>)"
  using assms by (simp add: update_def running_def Let_def)

lemma update_frame:
  assumes "running st" and "\<not> levelElapsed (Date_now (env st)) st"
  shows "update st = frame (Date_now (env st)) (st\<lparr>env := tick (env st)\<rparr>)"
  using assms by (simp add: update_def running_def Let_def)

lemma update_idle: "\<not> running st \<Longrightarrow> update st = st"
  by (auto simp: update_def running_def)

subsection \<open>Power-ups\<close>

lemma activePowerUps_activate:
  "activePowerUps (activatePowerUp t st) = (activePowerUps st)(t \<mapsto> Date_now (env st) + 10000)"
  by (simp add: activatePowerUp_def Let_def split: PowerUpType.split)

lemma boosted_activate: "boosted t (activatePowerUp t st)"
  by (simp add: activatePowerUp_def boosted_def Let_def split: PowerUpType.split)

lemma powerInv_activate: "powerInv st \<Longrightarrow> powerInv (activatePowerUp t st)"
  by (cases t) (simp_all add: activatePowerUp_def powerInv_def Let_def)

lemma powerInv_expire: "powerInv st \<Longrightarrow> powerInv (expirePowerUp now st t)"
proof (cases "activePowerUps st t")
  case None
  then show "powerInv st \<Longrightarrow> ?thesis" by (simp add: expirePowerUp_def)
next
  case (Some e)
  assume p: "powerInv st"
  show ?thesis
  proof (cases "e \<le> now")
    case False
    then show ?thesis using Some p by (simp add: expirePowerUp_def)
  next
    case True
    then have "expirePowerUp now st t =
        (deactivatePowerUp t st)\<lparr>activePowerUps := (activePowerUps st)(t := None)\<rparr>"
      using Some by (cases t) (simp_all add: expirePowerUp_def deactivatePowerUp_def Let_def)
    then show ?thesis
      using p by (cases t) (simp_all add: deactivatePowerUp_def powerInv_def)
  qed
qed

lemma powerInv_expire_all: "powerInv st \<Longrightarrow> powerInv (foldl (expirePowerUp now) st ts)"
  by (induction ts arbitrary: st) (simp_all add: powerInv_expire)

lemma powerInv_modifiers: "modifiers s' = modifiers s \<Longrightarrow> powerInv s' = powerInv s"
  by (simp add: modifiers_def powerInv_def)

lemma powerInv_updates [simp]:
  "powerInv (st\<lparr>env := ev\<rparr>) = powerInv st"
  "powerInv (st\<lparr>gameState := g\<rparr>) = powerInv st"
  "powerInv (st\<lparr>scorePopups := sp\<rparr>) = powerInv st"
  "powerInv (st\<lparr>particles := pt\<rparr>) = powerInv st"
  "powerInv (st\<lparr>powerUps := pu\<rparr>) = powerInv st"
  "powerInv (st\<lparr>enemies := es\<rparr>) = powerInv st"
  "powerInv (st\<lparr>bullets := bs\<rparr>) = powerInv st"
  "powerInv (st\<lparr>base := b\<rparr>) = powerInv st"
  by (simp_all add: powerInv_def)

lemma powerInv_bulletVsBase: "powerInv st \<Longrightarrow> powerInv (bulletVsBase i st)"
  by (simp add: bulletVsBase_def Let_def) (simp add: powerInv_def)

lemma powerInv_updatePowerUps: "powerInv st \<Longrightarrow> powerInv (updatePowerUps now st)"
  by (simp add: updatePowerUps_def Let_def powerInv_expire_all)

lemma powerInv_collectPowerUp: "powerInv st \<Longrightarrow> powerInv (collectPowerUp i st)"
  by (simp add: collectPowerUp_def Let_def powerInv_activate)

lemma modifiers_frameHead: "modifiers (frameHead t st) = modifiers st"
proof -
  have "modifiers (forEach (\<lambda>s. length (enemies s)) (enemyTick t) s0) = modifiers s0" for s0
    by (rule forEach_preserve) (rule modifiers_enemyTick)
  then show ?thesis
    by (simp add: frameHead_def Let_def modifiers_spawnEnemies)
qed

lemma modifiers_playerPass:
  "modifiers (forEach (\<lambda>s. length (bullets s)) bulletVsEnemies st) = modifiers st"
  by (rule forEach_preserve) (rule modifiers_bulletVsEnemies)

lemma powerInv_frameTail: "powerInv st \<Longrightarrow> powerInv (frameTail t st)"
proof -
  assume p: "powerInv st"
  have l9: "powerInv (forEach (\<lambda>s. length (bullets s)) bulletVsEnemies s)" if "powerInv s" for s
    using that powerInv_modifiers [OF modifiers_playerPass] by simp
  have l10: "powerInv (forEach (\<lambda>s. length (bullets s)) bulletVsBase s)" if "powerInv s" for s
    by (rule forEach_invariant [where P = powerInv]) (simp_all add: powerInv_bulletVsBase that)
  have l12: "powerInv (checkPowerUpCollisions s)" if "powerInv s" for s
    unfolding checkPowerUpCollisions_def
    by (rule forEach_invariant [where P = powerInv]) (simp_all add: powerInv_collectPowerUp that)
  have l13: "powerInv (periodicPowerUp t s)" if "powerInv s" for s
    using that powerInv_modifiers [OF modifiers_periodicPowerUp] by simp
  show ?thesis
    unfolding frameTail_def Let_def
    by (simp add: l9 l10 l12 l13 powerInv_updatePowerUps p)
qed

lemma powerInv_frame: "powerInv st \<Longrightarrow> powerInv (frame t st)"
  unfolding frame_split
  by (rule powerInv_frameTail)
     (simp add: powerInv_modifiers [OF modifiers_updateCombo]
        powerInv_modifiers [OF modifiers_frameHead])

lemma modifiers_nextLevel: "modifiers (nextLevel st) = modifiers st"
  by (simp add: nextLevel_def Let_def)

lemma modifiers_shoot: "modifiers (shoot st) = modifiers st"
  by (simp add: shoot_def Let_def)

lemma powerInv_update: "powerInv st \<Longrightarrow> powerInv (update st)"
  by (simp add: update_def Let_def powerInv_frame powerInv_modifiers [OF modifiers_nextLevel])

lemma powerInv_exec: "powerInv st \<Longrightarrow> powerInv (exec c st)"
  by (cases c)
     (simp_all add: powerInv_update powerInv_modifiers [OF modifiers_shoot],
      simp add: reset_def Let_def powerInv_def)

lemma reachable_powerInv: "reachable st \<Longrightarrow> powerInv st"
proof (induction rule: reachable.induct)
  case (start cw ch ev)
  show ?case by (simp add: GameEngine_new_def Let_def powerInv_def)
next
  case (step st c)
  from step.IH show ?case by (rule powerInv_exec)
qed

lemma activePowerUps_deactivate: "activePowerUps (deactivatePowerUp t st) = activePowerUps st"
  by (cases t) (simp_all add: deactivatePowerUp_def)

lemma activePowerUps_expire:
  "activePowerUps (expirePowerUp now st t) u =
     (if u = t then live now (activePowerUps st) u else activePowerUps st u)"
  by (simp add: expirePowerUp_def live_def Let_def activePowerUps_deactivate split: option.split)

lemma live_idem: "live now (live now m) = live now m"
  by (rule ext) (simp add: live_def split: option.split)

lemma live_expire: "live now (activePowerUps (expirePowerUp now st t)) = live now (activePowerUps st)"
proof (rule ext)
  fix u
  show "live now (activePowerUps (expirePowerUp now st t)) u = live now (activePowerUps st) u"
    unfolding live_def
    by (simp add: activePowerUps_expire) (simp add: live_def split: option.split)
qed

lemma activePowerUps_expire_all:
  "activePowerUps (foldl (expirePowerUp now) st ts) u =
     (if u \<in> set ts then live now (activePowerUps st) u else activePowerUps st u)"
proof (induction ts arbitrary: st)
  case Nil
  show ?case by simp
next
  case (Cons t ts)
  show ?case
    by (simp add: Cons.IH live_expire activePowerUps_expire)
qed

lemma powerUpTypes_all: "u \<in> set powerUpTypes"
  by (cases u) (simp_all add: powerUpTypes_def)

lemma activePowerUps_updatePowerUps:
  "activePowerUps (updatePowerUps now st) u = live now (activePowerUps st) u"
  by (simp add: updatePowerUps_def Let_def activePowerUps_expire_all powerUpTypes_all)

lemma activePowerUps_modifiers: "modifiers s' = modifiers s \<Longrightarrow> activePowerUps s' = activePowerUps s"
  by (simp add: modifiers_def)

lemma activePowerUps_bulletVsBase: "activePowerUps (bulletVsBase i st) = activePowerUps st"
  by (simp add: bulletVsBase_def Let_def)

lemma recorded_collectPowerUp:
  "activePowerUps st u \<noteq> None \<Longrightarrow> activePowerUps (collectPowerUp i st) u \<noteq> None"
  by (simp add: collectPowerUp_def Let_def activePowerUps_activate)

lemma recorded_checkPowerUpCollisions:
  "activePowerUps st u \<noteq> None \<Longrightarrow> activePowerUps (checkPowerUpCollisions st) u \<noteq> None"
  unfolding checkPowerUpCollisions_def
  by (rule forEach_invariant [where P = "\<lambda>s. activePowerUps s u \<noteq> None"])
     (simp_all add: recorded_collectPowerUp)

lemma recorded_frameTail:
  assumes "live t (activePowerUps st) u \<noteq> None"
  shows "activePowerUps (frameTail t st) u \<noteq> None"
proof -
  define s8 where "s8 = st\<lparr>scorePopups := filter (\<lambda>p. sp_lifetime p < sp_maxLifetime p)
                                      (map agePopup (scorePopups st)),
      particles := filter (\<lambda>p. pt_lifetime p < pt_maxLifetime p) (map ageParticle (particles st)),
      bullets := filter (bulletOnScreen (canvasWidth st) (canvasHeight st)) (bullets st),
      enemies := filter (\<lambda>e. \<not> Enemy_isOffScreen e) (enemies st)\<rparr>"
  define s10 where "s10 = forEach (\<lambda>s. length (bullets s)) bulletVsBase
      (forEach (\<lambda>s. length (bullets s)) bulletVsEnemies s8)"
  define s12 where "s12 = checkPowerUpCollisions (updatePowerUps t s10)"
  have l9: "activePowerUps (forEach (\<lambda>s. length (bullets s)) bulletVsEnemies s) = activePowerUps s"
    for s
    by (rule activePowerUps_modifiers [OF modifiers_playerPass])
  have l10: "activePowerUps (forEach (\<lambda>s. length (bullets s)) bulletVsBase s) = activePowerUps s"
    for s
    by (rule forEach_preserve) (rule activePowerUps_bulletVsBase)
  have l13: "activePowerUps (periodicPowerUp t s) = activePowerUps s" for s
    by (rule activePowerUps_modifiers [OF modifiers_periodicPowerUp])
  have "activePowerUps s10 = activePowerUps st"
    by (simp add: s10_def l10 l9) (simp add: s8_def)
  then have "activePowerUps (updatePowerUps t s10) u \<noteq> None"
    using assms by (simp only: activePowerUps_updatePowerUps) simp
  then have "activePowerUps s12 u \<noteq> None"
    unfolding s12_def by (rule recorded_checkPowerUpCollisions)
  moreover have "frameTail t st =
      (periodicPowerUp t s12)\<lparr>gameState := (gameState (periodicPowerUp t s12))
         \<lparr>playerHealth := health (base (periodicPowerUp t s12))\<rparr>\<rparr>"
    by (simp add: frameTail_def Let_def s12_def s10_def s8_def)
  ultimately show ?thesis
    by (simp add: l13)
qed

lemma recorded_frame:
  assumes "live t (activePowerUps st) u \<noteq> None"
  shows "activePowerUps (frame t st) u \<noteq> None"
  unfolding frame_split
  by (rule recorded_frameTail)
     (simp add: activePowerUps_modifiers [OF modifiers_updateCombo]
        activePowerUps_modifiers [OF modifiers_frameHead] assms)

lemma recorded_update:
  assumes "activePowerUps st u = Some e" and "activePowerUps (update st) u = None"
  shows "e \<le> Date_now (env st)"
proof (rule ccontr)
  assume late: "\<not> e \<le> Date_now (env st)"
  let ?s = "st\<lparr>env := tick (env st)\<rparr>"
  have l: "live (Date_now (env st)) (activePowerUps ?s) u \<noteq> None"
    using assms(1) late by (simp add: live_def)
  have "activePowerUps (update st) u \<noteq> None"
  proof (cases "running st")
    case False
    then show ?thesis using assms(1) by (simp add: update_idle)
  next
    case True
    show ?thesis
    proof (cases "levelElapsed (Date_now (env st)) st")
      case True
      then show ?thesis
        using \<open>running st\<close> assms(1)
        by (simp add: update_transition activePowerUps_modifiers [OF modifiers_nextLevel])
    next
      case False
      then show ?thesis
        using \<open>running st\<close> recorded_frame [OF l] by (simp add: update_frame)
    qed
  qed
  then show False using assms(2) by simp
qed

lemma recorded_exec:
  assumes "c \<noteq> Reset" and "activePowerUps st u = Some e"
    and "activePowerUps (exec c st) u = None"
  shows "c = Update \<and> e \<le> Date_now (env st)"
proof (cases c)
  case Update
  then show ?thesis using assms recorded_update [of st u e] by simp
next
  case Shoot
  then show ?thesis using assms by (simp add: activePowerUps_modifiers [OF modifiers_shoot])
qed (use assms in simp_all)

lemma powerInv_baseline:
  "powerInv st \<Longrightarrow> activePowerUps st u = None \<Longrightarrow> baseline u st"
  by (cases u) (auto simp: powerInv_def baseline_def)

lemma powerInv_boosted:
  "powerInv st \<Longrightarrow> u \<noteq> SHIELD \<Longrightarrow> activePowerUps st u \<noteq> None \<Longrightarrow> boosted u st"
  by (cases u) (auto simp: powerInv_def boosted_def)

lemma reachable_run: "reachable st \<Longrightarrow> reachable (run cs st)"
  unfolding run_def
  by (induction cs arbitrary: st) (simp_all add: reachable.step)

subsection \<open>Kill points are whole numbers\<close>

text \<open>
  At levels 1 to 3 the product \<open>basePoints * comboMultiplier\<close> that line 170 rounds is
  already a whole number: the multiplier is a multiple of one tenth and the base points
  are a multiple of ten. \<open>Math.round\<close> therefore leaves it as it is.
\<close>

lemma Math_round_of_int: "Math_round (of_int n) = n"
proof -
  have "\<lfloor>(of_int n :: rat) + 1 / 2\<rfloor> = n"
    by (rule floor_unique) simp_all
  then show ?thesis by (simp add: Math_round_def)
qed

lemma points_integral:
  assumes "l = 1 \<or> l = 2 \<or> l = 3"
  shows "\<exists>n. of_int (if l = 3 then 500 else 10 * l) * min (1 + of_int c * (1 / 10)) (3 :: rat)
              = of_int n"
proof (cases "(1 :: rat) + of_int c * (1 / 10) \<le> 3")
  case True
  have "of_int (if l = 3 then 500 else 10 * l) * ((1 :: rat) + of_int c * (1 / 10)) =
        of_int ((if l = 3 then 500 else 10 * l) + (if l = 3 then 50 else l) * c)"
    using assms by (auto simp: algebra_simps)
  then show ?thesis using True by (metis min.absorb1)
next
  case False
  then have "min ((1 :: rat) + of_int c * (1 / 10)) 3 = 3" by simp
  then have "of_int (if l = 3 then 500 else 10 * l) * min ((1 :: rat) + of_int c * (1 / 10)) 3 =
        of_int ((if l = 3 then 500 else 10 * l) * 3)"
    by simp
  then show ?thesis by blast
qed

lemma killPoints_exact:
  assumes "level g = 1 \<or> level g = 2 \<or> level g = 3"
  shows "of_int (killPoints (comboAtKill t g)) =
         of_int (basePoints (comboAtKill t g)) * comboMultiplier (comboAtKill t g)"
proof (cases "t - lastKillTime g < 2000 \<and> lastKillTime g > 0")
  case True
  obtain n where n: "of_int (if level g = 3 then 500 else 10 * level g) *
      min (1 + of_int (combo g + 1) * (1 / 10)) (3 :: rat) = of_int n"
    using points_integral [OF assms] by blast
  have "of_int (basePoints (comboAtKill t g)) * comboMultiplier (comboAtKill t g) = of_int n"
    using True n by (auto simp: comboAtKill_def basePoints_def Let_def split: if_splits)
  then show ?thesis
    unfolding killPoints_def by (metis Math_round_of_int)
next
  case False
  then have "of_int (basePoints (comboAtKill t g)) * comboMultiplier (comboAtKill t g) =
      of_int (basePoints (comboAtKill t g))"
    by (auto simp: comboAtKill_def Let_def)
  then show ?thesis
    unfolding killPoints_def by (metis Math_round_of_int)
qed


section \<open>The claims\<close>

text \<open>
  Every statement about \<open>update\<close> below is about an engine that is running:
  \<open>update\<close> returns at once when the engine is paused or the game is over.
\<close>

subsection \<open>C1: scoring a kill\<close>



subsection \<open>C2: the combo multiplier\<close>




subsection \<open>C3: dead enemies leave the collection\<close>

text \<open>
  Claim C3. An enemy's health never goes below 0, and an enemy whose health reaches 0
  during \<open>update\<close> is gone from \<open>enemies\<close> when that \<open>update\<close> returns. The first half
  holds, and so does the second for an enemy killed by a bullet (\<open>killEnemy\<close> splices it
  out). The melee path breaks it: the callback calls \<open>takeDamage(100)\<close> under the
  comment "Remove enemy after melee hit" and removes nothing. In \<open>meleeState\<close> a melee
  enemy with 30 health is one step to the right of the player; the first \<open>update\<close>
  moves it onto the player, who loses 5 health, and leaves it in the collection with
  health 0; the second \<open>update\<close> lets it hit the player again.
\<close>

theorem melee_kill_stays:
  "0 \<le> e_health (Enemy_takeDamage amount e) \<and>
   enemies (killEnemy i st) = splice1 i (enemies st) \<and>
   map e_health (enemies meleeState) = [30] \<and>
   map e_health (enemies (update meleeState)) = [0] \<and>
   health (base (update meleeState)) = 95 \<and>
   map e_health (enemies (update (update meleeState))) = [0] \<and>
   health (base (update (update meleeState))) = 90"
proof -
  have "map e_health (enemies meleeState) = [30] \<and>
      map e_health (enemies (update meleeState)) = [0] \<and>
      health (base (update meleeState)) = 95 \<and>
      map e_health (enemies (update (update meleeState))) = [0] \<and>
      health (base (update (update meleeState))) = 90"
    by code_simp
  then show ?thesis
    by (simp add: Enemy_takeDamage_def enemies_killEnemy)
qed

subsection \<open>C4: an enemy bullet reaches the player\<close>

text \<open>
  The callback of the enemy-bullet pass (lines 223 to 240), on an enemy bullet that it is
  called on and that overlaps the player: with the shield up, the shield flag is cleared
  and the player's health stays; without it, the health drops by the bullet's damage,
  floored at 0; either way exactly that bullet leaves the collection; and the game-over
  flag is set exactly when the player's health is 0 after the hit (it stays set if it
  was set before).
\<close>

lemma bulletVsBase_hit:
  "bulletIndex < length (bullets st) \<and>
   \<not> isPlayerBullet (bullets st ! bulletIndex) \<and>
   bulletBaseCollision (bullets st ! bulletIndex) (base st) \<and>
   0 \<le> health (base st) \<longrightarrow>
   (let b = bullets st ! bulletIndex; st' = bulletVsBase bulletIndex st
    in (hasShield st \<longrightarrow> \<not> hasShield st' \<and> health (base st') = health (base st)) \<and>
       (\<not> hasShield st \<longrightarrow>
          \<not> hasShield st' \<and> health (base st') = max 0 (health (base st) - damage b)) \<and>
       playerHealth (gameState st') = health (base st') \<and>
       bullets st' = take bulletIndex (bullets st) @ drop (Suc bulletIndex) (bullets st) \<and>
       length (bullets st') + 1 = length (bullets st) \<and>
       (isGameOver (gameState st') \<longleftrightarrow> isGameOver (gameState st) \<or> health (base st') = 0))"
  by (auto simp: bulletVsBase_def Let_def Base_takeDamage_def Base_isAlive_def splice1_def)

text \<open>
  The scenario of the specification: a bullet of damage 10 against a player at health
  100 leaves 90 without a shield, and 100 with the shield, which is then gone; the
  bullet is consumed in both cases and the game goes on.
\<close>

lemma bulletVsBase_hit_scenario:
  "\<not> isPlayerBullet (bullets (shieldState True 108) ! 0) \<and>
   bulletBaseCollision (bullets (shieldState True 108) ! 0) (base (shieldState True 108)) \<and>
   hasShield (shieldState True 108) \<and> health (base (shieldState True 108)) = 100 \<and>
   \<not> hasShield (bulletVsBase 0 (shieldState True 108)) \<and>
   health (base (bulletVsBase 0 (shieldState True 108))) = 100 \<and>
   bullets (bulletVsBase 0 (shieldState True 108)) = [] \<and>
   \<not> isGameOver (gameState (bulletVsBase 0 (shieldState True 108))) \<and>
   bulletBaseCollision (bullets (shieldState False 108) ! 0) (base (shieldState False 108)) \<and>
   \<not> hasShield (shieldState False 108) \<and>
   health (base (bulletVsBase 0 (shieldState False 108))) = 90 \<and>
   playerHealth (gameState (bulletVsBase 0 (shieldState False 108))) = 90 \<and>
   bullets (bulletVsBase 0 (shieldState False 108)) = [] \<and>
   \<not> isGameOver (gameState (bulletVsBase 0 (shieldState False 108)))"
proof -
  have s: "0 < length (bullets (shieldState True 108))"
    "\<not> isPlayerBullet (bullets (shieldState True 108) ! 0)"
    "bulletBaseCollision (bullets (shieldState True 108) ! 0) (base (shieldState True 108))"
    "hasShield (shieldState True 108)" "health (base (shieldState True 108)) = 100"
    "\<not> isGameOver (gameState (shieldState True 108))"
    "length (bullets (shieldState True 108)) = 1"
    by code_simp+
  have n: "0 < length (bullets (shieldState False 108))"
    "\<not> isPlayerBullet (bullets (shieldState False 108) ! 0)"
    "bulletBaseCollision (bullets (shieldState False 108) ! 0) (base (shieldState False 108))"
    "\<not> hasShield (shieldState False 108)" "health (base (shieldState False 108)) = 100"
    "damage (bullets (shieldState False 108) ! 0) = 10"
    "\<not> isGameOver (gameState (shieldState False 108))"
    "length (bullets (shieldState False 108)) = 1"
    by code_simp+
  show ?thesis
    using bulletVsBase_hit [of 0 "shieldState True 108"] bulletVsBase_hit [of 0 "shieldState False 108"]
      s n
    by (simp add: Let_def)
qed

text \<open>
  Claim C4. When an enemy bullet overlaps the player during \<open>update\<close>: with the shield
  up, the shield flag is cleared and the player's health is unchanged; otherwise the
  health decreases by the bullet's damage, floored at 0; in either case that bullet is
  removed from the collection; and the game-over flag is set exactly when the health
  reaches 0. The code does this to every bullet its callback is called on, but the pass
  does not reach every bullet: the callback splices the bullet out of the array that
  \<open>bullets.forEach\<close> is walking (line 234), the next bullet moves into the freed index,
  and the pass goes on at the index after it. In \<open>twoBullets\<close> two enemy bullets of
  damage 10 both overlap the unshielded player after their move. \<open>update\<close> takes 10
  health for the first and removes it; the second is still in the collection when
  \<open>update\<close> returns, overlapping the player, and has done no damage. When the player
  then moves down one step, the next \<open>update\<close> finds the second bullet beside the
  player: it has flown through the player and the health is still 90.
\<close>

theorem enemy_bullet_skipped:
  "\<not> hasShield twoBullets \<and> health (base twoBullets) = 100 \<and>
   map isPlayerBullet (bullets twoBullets) = [False, False] \<and>
   map damage (bullets twoBullets) = [10, 10] \<and>
   map (\<lambda>b. bulletBaseCollision (moveBullet b) (base twoBullets)) (bullets twoBullets) =
     [True, True] \<and>
   health (base (update twoBullets)) = 90 \<and>
   bullets (update twoBullets) = [moveBullet (bullets twoBullets ! 1)] \<and>
   bulletBaseCollision (bullets (update twoBullets) ! 0) (base (update twoBullets)) \<and>
   health (base (run [Update, MoveDown 600 1, Update] twoBullets)) = 90 \<and>
   map (\<lambda>b. bulletBaseCollision b (base (run [Update, MoveDown 600 1, Update] twoBullets)))
     (bullets (run [Update, MoveDown 600 1, Update] twoBullets)) = [False]"
  by code_simp

subsection \<open>C5: level transitions\<close>



subsection \<open>C6: reset\<close>

text \<open>
  Claim C6. From any state, paused or over or neither, \<open>reset\<close> puts the score, the
  combo, the multiplier, the level, the player (health and maximum health included) and
  its mirror in the game state, the kill, shot and hit counters, the pause and game-over
  flags, the four power-up modifiers with the table of active power-ups, and the five
  collections back to what the constructor builds for the same canvas: level 1, running,
  score 0, combo 0, multiplier 1, health 100, every collection empty.
\<close>

theorem reset_restores:
  "(let r = reset st; n = GameEngine_new (canvasWidth st) (canvasHeight st) ev
    in score (gameState r) = score (gameState n) \<and>
       combo (gameState r) = combo (gameState n) \<and>
       comboMultiplier (gameState r) = comboMultiplier (gameState n) \<and>
       level (gameState r) = level (gameState n) \<and>
       base r = base n \<and>
       playerHealth (gameState r) = playerHealth (gameState n) \<and>
       maxPlayerHealth (gameState r) = maxPlayerHealth (gameState n) \<and>
       enemiesKilled (gameState r) = enemiesKilled (gameState n) \<and>
       bulletsShot (gameState r) = bulletsShot (gameState n) \<and>
       bulletsHit (gameState r) = bulletsHit (gameState n) \<and>
       isPaused (gameState r) = isPaused (gameState n) \<and>
       isGameOver (gameState r) = isGameOver (gameState n) \<and>
       activePowerUps r = activePowerUps n \<and>
       baseSpeedMultiplier r = baseSpeedMultiplier n \<and>
       shootCooldownMultiplier r = shootCooldownMultiplier n \<and>
       hasShield r = hasShield n \<and>
       multiShotCount r = multiShotCount n \<and>
       enemies r = enemies n \<and> bullets r = bullets n \<and>
       scorePopups r = scorePopups n \<and> particles r = particles n \<and>
       powerUps r = powerUps n \<and> boss r = boss n \<and>
       level (gameState r) = 1 \<and> \<not> isPaused (gameState r) \<and> \<not> isGameOver (gameState r) \<and>
       score (gameState r) = 0 \<and> combo (gameState r) = 0 \<and>
       comboMultiplier (gameState r) = 1 \<and>
       health (base r) = 100 \<and> maxHealth (base r) = 100 \<and>
       playerHealth (gameState r) = 100 \<and> maxPlayerHealth (gameState r) = 100 \<and>
       enemiesKilled (gameState r) = 0 \<and> bulletsShot (gameState r) = 0 \<and>
       bulletsHit (gameState r) = 0 \<and>
       baseSpeedMultiplier r = 1 \<and> shootCooldownMultiplier r = 1 \<and>
       \<not> hasShield r \<and> multiShotCount r = 1 \<and> activePowerUps r = Map.empty \<and>
       enemies r = [] \<and> bullets r = [] \<and> scorePopups r = [] \<and> particles r = [] \<and>
       powerUps r = [])"
  by (simp add: reset_def GameEngine_new_def Let_def initialGameState_def Base_new_def)

text \<open>
  At a concrete state: the engine of \<open>transitionState 3 40000\<close> after its last
  \<open>update\<close> (the game is over, the score is 22, the player's health is 35), and the
  same engine paused.
\<close>

theorem reset_restores_witness:
  "isGameOver (gameState (update (transitionState 3 40000))) \<and>
   score (gameState (update (transitionState 3 40000))) = 22 \<and>
   health (base (update (transitionState 3 40000))) = 35 \<and>
   \<not> isGameOver (gameState (reset (update (transitionState 3 40000)))) \<and>
   score (gameState (reset (update (transitionState 3 40000)))) = 0 \<and>
   level (gameState (reset (update (transitionState 3 40000)))) = 1 \<and>
   health (base (reset (update (transitionState 3 40000)))) = 100 \<and>
   isPaused (gameState (exec TogglePause (killState 286 302))) \<and>
   enemies (reset (exec TogglePause (killState 286 302))) = [] \<and>
   bullets (reset (exec TogglePause (killState 286 302))) = [] \<and>
   \<not> isPaused (gameState (reset (exec TogglePause (killState 286 302)))) \<and>
   combo (gameState (reset (exec TogglePause (killState 286 302)))) = 0"
proof -
  have b: "isGameOver (gameState (update (transitionState 3 40000)))"
    "score (gameState (update (transitionState 3 40000))) = 22"
    "health (base (update (transitionState 3 40000))) = 35"
    "isPaused (gameState (exec TogglePause (killState 286 302)))"
    by code_simp+
  show ?thesis
    using reset_restores [of "update (transitionState 3 40000)" "quietEnv 0"]
      reset_restores [of "exec TogglePause (killState 286 302)" "quietEnv 0"] b
    by (simp add: Let_def GameEngine_new_def initialGameState_def Base_new_def)
qed

subsection \<open>C7: overlap of rectangles\<close>

text \<open>
  Claim C7 says that the test is true exactly when the x-extents and the y-extents
  overlap, and that rectangles whose boundaries merely touch count as colliding. All
  four comparisons of \<open>rectRectCollision\<close> are strict, so touching rectangles do not
  collide: the squares of side 10 at (0, 0) and at (10, 0) share the edge \<open>x = 10\<close>
  (their closed extents meet on both axes) and the test is false.
\<close>

theorem touching_counterexample:
  "extents_meet 0 10 10 10 \<and> extents_meet 0 10 0 10 \<and>
   0 + 10 = pos_x \<lparr>pos_x = 10, pos_y = 0\<rparr> \<and>
   \<not> rectRectCollision \<lparr>pos_x = 0, pos_y = 0\<rparr> \<lparr>width = 10, height = 10\<rparr>
         \<lparr>pos_x = 10, pos_y = 0\<rparr> \<lparr>width = 10, height = 10\<rparr>"
  by (simp add: rectRectCollision_def extents_meet_def)

text \<open>
  Claim C7, amended. For rectangles of positive width and height the test is true
  exactly when the open x-extents share a point and the open y-extents share a point;
  two rectangles of which one ends, on some axis, where the other begins are reported as
  not colliding.
\<close>

theorem rect_overlap:
  "0 < width s1 \<and> 0 < height s1 \<and> 0 < width s2 \<and> 0 < height s2 \<longrightarrow>
    (rectRectCollision p1 s1 p2 s2 \<longleftrightarrow>
      extents_overlap (pos_x p1) (width s1) (pos_x p2) (width s2) \<and>
      extents_overlap (pos_y p1) (height s1) (pos_y p2) (height s2)) \<and>
    (pos_x p1 + width s1 = pos_x p2 \<or> pos_x p2 + width s2 = pos_x p1 \<or>
     pos_y p1 + height s1 = pos_y p2 \<or> pos_y p2 + height s2 = pos_y p1
       \<longrightarrow> \<not> rectRectCollision p1 s1 p2 s2)"
  by (auto simp: rectRectCollision_def extents_overlap_def)

theorem rect_overlap_witness:
  "rectRectCollision \<lparr>pos_x = 0, pos_y = 0\<rparr> \<lparr>width = 10, height = 10\<rparr>
      \<lparr>pos_x = 5, pos_y = 5\<rparr> \<lparr>width = 10, height = 10\<rparr> \<and>
   \<not> rectRectCollision \<lparr>pos_x = 0, pos_y = 0\<rparr> \<lparr>width = 10, height = 10\<rparr>
      \<lparr>pos_x = 10, pos_y = 5\<rparr> \<lparr>width = 10, height = 10\<rparr>"
  using rect_overlap [of "\<lparr>width = 10, height = 10\<rparr>" "\<lparr>width = 10, height = 10\<rparr>"
      "\<lparr>pos_x = 0, pos_y = 0\<rparr>" "\<lparr>pos_x = 5, pos_y = 5\<rparr>"]
    rect_overlap [of "\<lparr>width = 10, height = 10\<rparr>" "\<lparr>width = 10, height = 10\<rparr>"
      "\<lparr>pos_x = 0, pos_y = 0\<rparr>" "\<lparr>pos_x = 10, pos_y = 5\<rparr>"]
  by (simp add: extents_overlap_def)

subsection \<open>C8: the player stays on the canvas\<close>

text \<open>
  Claim C8 says that after \<open>moveUp\<close> or \<open>moveDown\<close> the player's y lies in
  \<open>[0, bound - height]\<close> whatever the start and the multiplier. \<open>moveUp\<close> clamps at the
  top only and \<open>moveDown\<close> at the bottom only: from y = 1000 on a canvas of height 600,
  \<open>moveUp\<close> ends at 993; from y = -100, \<open>moveDown\<close> ends at -93; and from the starting
  position, \<open>moveUp\<close> with multiplier -100 ends at 970.
\<close>

theorem move_counterexample:
  "\<not> in_bounds 600 (moveUp 600 1 ((Base_new 800 600)\<lparr>position := \<lparr>pos_x = 50, pos_y = 1000\<rparr>\<rparr>)) \<and>
   \<not> in_bounds 600 (moveDown 600 1 ((Base_new 800 600)\<lparr>position := \<lparr>pos_x = 50, pos_y = - 100\<rparr>\<rparr>)) \<and>
   in_bounds 600 (Base_new 800 600) \<and>
   \<not> in_bounds 600 (moveUp 600 (- 100) (Base_new 800 600))"
  by (simp add: moveUp_def moveDown_def in_bounds_def Base_new_def)

text \<open>
  Claim C8, amended. \<open>moveUp\<close> never ends above the top (\<open>y \<ge> 0\<close>) and \<open>moveDown\<close>
  never below the bottom (\<open>y \<le> bound - height\<close>); when the player starts within
  \<open>[0, bound - height]\<close> and the step \<open>speed * multiplier\<close> is not negative, both end
  within \<open>[0, bound - height]\<close>.
\<close>

theorem move_in_bounds:
  "0 \<le> pos_y (position (moveUp bound m b)) \<and>
   pos_y (position (moveDown bound m b)) \<le> bound - height (base_size b) \<and>
   (in_bounds bound b \<and> 0 \<le> speed b * m \<longrightarrow>
      in_bounds bound (moveUp bound m b) \<and> in_bounds bound (moveDown bound m b))"
  by (auto simp: moveUp_def moveDown_def in_bounds_def)

theorem move_in_bounds_witness:
  "in_bounds 600 (Base_new 800 600) \<and> 0 \<le> speed (Base_new 800 600) * (3 / 2) \<and>
   in_bounds 600 (moveUp 600 (3 / 2) (Base_new 800 600)) \<and>
   in_bounds 600 (moveDown 600 (3 / 2) (Base_new 800 600))"
  using move_in_bounds [of 600 "3 / 2" "Base_new 800 600"]
  by (simp add: in_bounds_def Base_new_def)

subsection \<open>C9: power-ups\<close>

text \<open>
  Claim C9 says that a pickup of type T records the expiration \<open>now + 10000\<close> for T and
  applies T's modifier, that a second pickup of T overwrites the one recorded expiration,
  and that the modifier is back at its baseline exactly when the recorded expiration has
  passed. The shield is the exception: an enemy bullet that the shield absorbs clears the
  flag at once. In \<open>shieldState True 112\<close> the shield is recorded to expire at 42000;
  the \<open>update\<close> at time 35000 absorbs a bullet, and the flag is down while the recorded
  expiration, still 42000, has not passed.
\<close>

theorem shield_counterexample:
  "hasShield (shieldState True 112) \<and>
   activePowerUps (shieldState True 112) SHIELD = Some 42000 \<and>
   Date_now (env (shieldState True 112)) = 35000 \<and>
   \<not> hasShield (update (shieldState True 112)) \<and>
   activePowerUps (update (shieldState True 112)) SHIELD = Some 42000"
  by code_simp

text \<open>
  Claim C9, amended. Collecting the pickup at index i (the player's centre is nearer
  than \<open>size + 30\<close>) sets the expiration recorded for its type to \<open>now + 10000\<close>,
  whatever was recorded before, applies the type's modifier and removes the pickup; the
  table holds one expiration per type. \<open>updatePowerUps\<close> at time \<open>now\<close> drops exactly the
  entries whose expiration is at most \<open>now\<close>. In every reachable state a type with no
  entry has its modifier at the baseline, and a type other than the shield that has an
  entry has its modifier applied; the shield flag may be down while its entry is still
  recorded. An entry disappears in a call other than \<open>reset\<close> only in an \<open>update\<close> whose
  clock reading has reached the recorded expiration.
\<close>

theorem powerup_lifecycle:
  "(i < length (powerUps st) \<and> near (powerUps st ! i) st \<longrightarrow>
      (let t = pu_type (powerUps st ! i); st' = collectPowerUp i st
       in activePowerUps st' = (activePowerUps st)(t \<mapsto> Date_now (env st) + 10000) \<and>
          boosted t st' \<and> powerUps st' = splice1 i (powerUps st))) \<and>
   activePowerUps (updatePowerUps now st) u =
      (case activePowerUps st u of
         None \<Rightarrow> None
       | Some e \<Rightarrow> if e \<le> now then None else Some e) \<and>
   (reachable st \<and> activePowerUps st u = None \<longrightarrow> baseline u st) \<and>
   (reachable st \<and> u \<noteq> SHIELD \<and> activePowerUps st u \<noteq> None \<longrightarrow> boosted u st) \<and>
   (c \<noteq> Reset \<and> activePowerUps st u = Some e \<and> activePowerUps (exec c st) u = None \<longrightarrow>
      c = Update \<and> e \<le> Date_now (env st))"
proof -
  have a: "let t = pu_type (powerUps st ! i); st' = collectPowerUp i st
       in activePowerUps st' = (activePowerUps st)(t \<mapsto> Date_now (env st) + 10000) \<and>
          boosted t st' \<and> powerUps st' = splice1 i (powerUps st)"
    if "near (powerUps st ! i) st"
  proof -
    have "collectPowerUp i st =
        (activatePowerUp (pu_type (powerUps st ! i)) st)
          \<lparr>powerUps := splice1 i (powerUps (activatePowerUp (pu_type (powerUps st ! i)) st))\<rparr>"
      using that by (simp add: collectPowerUp_def near_def Let_def)
    moreover have "powerUps (activatePowerUp t st) = powerUps st" for t
      by (cases t) (simp_all add: activatePowerUp_def Let_def)
    moreover have "boosted t (s\<lparr>powerUps := p\<rparr>) = boosted t s" for t s p
      by (cases t) (simp_all add: boosted_def)
    ultimately show ?thesis
      by (simp add: Let_def activePowerUps_activate boosted_activate)
  qed
  have b: "activePowerUps (updatePowerUps now st) u =
      (case activePowerUps st u of
         None \<Rightarrow> None
       | Some e \<Rightarrow> if e \<le> now then None else Some e)"
    by (simp add: activePowerUps_updatePowerUps live_def)
  show ?thesis
    using a b powerInv_baseline [OF reachable_powerInv] powerInv_boosted [OF reachable_powerInv]
      recorded_exec [of c st u e]
    by blast
qed

text \<open>
  At concrete states. In \<open>pickupState\<close> the speed boost is recorded to expire at 37000
  and a second pickup of it lies on the player: collected at 35000, it moves the
  expiration to 45000. \<open>updatePowerUps\<close> keeps the old entry at 36999 and drops it at
  37000. On a canvas 160 wide, the first \<open>update\<close> at 20000 spawns a speed boost next to
  the player and the second collects it. In \<open>expiringState\<close> the rapid fire expires at
  37000, the time of the \<open>update\<close>.
\<close>

theorem powerup_lifecycle_witness:
  "near (powerUps pickupState ! 0) pickupState \<and>
   activePowerUps pickupState SPEED_BOOST = Some 37000 \<and>
   activePowerUps (collectPowerUp 0 pickupState) SPEED_BOOST = Some 45000 \<and>
   baseSpeedMultiplier (collectPowerUp 0 pickupState) = 3 / 2 \<and>
   powerUps (collectPowerUp 0 pickupState) = [] \<and>
   activePowerUps (updatePowerUps 36999 pickupState) SPEED_BOOST = Some 37000 \<and>
   activePowerUps (updatePowerUps 37000 pickupState) SPEED_BOOST = None \<and>
   reachable (GameEngine_new 800 600 (quietEnv 5000)) \<and>
   \<not> hasShield (GameEngine_new 800 600 (quietEnv 5000)) \<and>
   reachable (run [Update, Update] (GameEngine_new 160 600 pickupEnv)) \<and>
   activePowerUps (run [Update, Update] (GameEngine_new 160 600 pickupEnv)) SPEED_BOOST = Some 30000 \<and>
   baseSpeedMultiplier (run [Update, Update] (GameEngine_new 160 600 pickupEnv)) = 3 / 2 \<and>
   activePowerUps expiringState RAPID_FIRE = Some 37000 \<and>
   activePowerUps (exec Update expiringState) RAPID_FIRE = None \<and>
   37000 \<le> Date_now (env expiringState)"
proof -
  have p: "0 < length (powerUps pickupState)" "near (powerUps pickupState ! 0) pickupState"
    "pu_type (powerUps pickupState ! 0) = SPEED_BOOST"
    "activePowerUps pickupState SPEED_BOOST = Some 37000"
    "Date_now (env pickupState) = 35000"
    "splice1 0 (powerUps pickupState) = []"
    by code_simp+
  have r0: "reachable (GameEngine_new 800 600 (quietEnv 5000))"
    by (rule reachable.start)
  have n0: "activePowerUps (GameEngine_new 800 600 (quietEnv 5000)) SHIELD = None"
    by code_simp
  have r2: "reachable (run [Update, Update] (GameEngine_new 160 600 pickupEnv))"
    by (rule reachable_run) (rule reachable.start)
  have a2: "activePowerUps (run [Update, Update] (GameEngine_new 160 600 pickupEnv)) SPEED_BOOST
      = Some 30000"
    by code_simp
  have x: "activePowerUps expiringState RAPID_FIRE = Some 37000"
    "activePowerUps (exec Update expiringState) RAPID_FIRE = None"
    by code_simp+
  have c1: "activePowerUps (collectPowerUp 0 pickupState) SPEED_BOOST = Some 45000 \<and>
      baseSpeedMultiplier (collectPowerUp 0 pickupState) = 3 / 2 \<and>
      powerUps (collectPowerUp 0 pickupState) = []"
    using powerup_lifecycle [of 0 pickupState 0 SPEED_BOOST Update 0] p
    by (simp add: Let_def boosted_def)
  have c2: "activePowerUps (updatePowerUps 36999 pickupState) SPEED_BOOST = Some 37000"
    "activePowerUps (updatePowerUps 37000 pickupState) SPEED_BOOST = None"
    using powerup_lifecycle [of 0 pickupState 36999 SPEED_BOOST Update 0]
      powerup_lifecycle [of 0 pickupState 37000 SPEED_BOOST Update 0] p
    by simp_all
  have c3: "\<not> hasShield (GameEngine_new 800 600 (quietEnv 5000))"
    using powerup_lifecycle [of 0 "GameEngine_new 800 600 (quietEnv 5000)" 0 SHIELD Update 0]
      r0 n0
    by (simp add: baseline_def)
  have c4: "baseSpeedMultiplier (run [Update, Update] (GameEngine_new 160 600 pickupEnv)) = 3 / 2"
    using powerup_lifecycle [of 0 "run [Update, Update] (GameEngine_new 160 600 pickupEnv)" 0
        SPEED_BOOST Update 0] r2 a2
    by (simp add: boosted_def)
  have c5: "37000 \<le> Date_now (env expiringState)"
    using powerup_lifecycle [of 0 expiringState 0 RAPID_FIRE Update 37000] x
    by simp
  show ?thesis
    using p r0 r2 a2 x c1 c2 c3 c4 c5 by simp
qed

subsection \<open>C10: one bullet, several enemies\<close>

text \<open>
  The callback of the player-bullet pass (lines 147 to 218), on the player bullet at index
  \<open>bi\<close> when every enemy it overlaps survives the hit (each has more health than the
  bullet's damage): every overlapping enemy is damaged and the others are left alone,
  and the splice at \<open>bi\<close> (line 151) runs once per overlapping enemy: with n of them,
  the n bullets from index \<open>bi\<close> on are removed, the bullet itself and the n - 1 that
  follow it, whether they touch an enemy or not. Score and counters do not change.
\<close>

lemma bulletVsEnemies_survivors:
  "bi < length (bullets st) \<and> isPlayerBullet (bullets st ! bi) \<and>
   (\<forall>e \<in> set (enemies st).
      bulletEnemyCollision (bullets st ! bi) e \<longrightarrow> damage (bullets st ! bi) < e_health e) \<longrightarrow>
   (let b = bullets st ! bi;
        st' = bulletVsEnemies bi st;
        n = length (filter (bulletEnemyCollision b) (enemies st))
    in enemies st' =
         map (\<lambda>e. if bulletEnemyCollision b e then Enemy_takeDamage (damage b) e else e)
           (enemies st) \<and>
       bullets st' = take bi (bullets st) @ drop (bi + n) (bullets st) \<and>
       gameState st' = gameState st)"
proof -
  have "bulletVsEnemies bi st =
      st\<lparr>enemies := map (graze (bullets st ! bi)) (enemies st),
         bullets := take bi (bullets st) @
           drop (bi + length (filter (bulletEnemyCollision (bullets st ! bi)) (enemies st)))
             (bullets st)\<rparr>"
    if "isPlayerBullet (bullets st ! bi)"
      and "\<forall>e \<in> set (enemies st).
        bulletEnemyCollision (bullets st ! bi) e \<longrightarrow> damage (bullets st ! bi) < e_health e"
    using that hitLoop_survivors [of 0 st "bullets st ! bi" bi "length (enemies st)"]
    by (simp add: bulletVsEnemies_def forEach_def funpow_splice1 Let_def)
  then show ?thesis
    by (auto simp: Let_def graze_def)
qed

text \<open>
  In \<open>twoTanks\<close> the first of three player bullets overlaps two enemies of health 100:
  both go down to 80, and the first two bullets are removed, although the second
  bullet touches neither enemy.
\<close>

lemma bulletVsEnemies_survivors_twoTanks:
  "isPlayerBullet (bullets twoTanks ! 0) \<and>
   length (filter (bulletEnemyCollision (bullets twoTanks ! 0)) (enemies twoTanks)) = 2 \<and>
   \<not> bulletEnemyCollision (bullets twoTanks ! 1) (enemies twoTanks ! 0) \<and>
   \<not> bulletEnemyCollision (bullets twoTanks ! 1) (enemies twoTanks ! 1) \<and>
   map e_health (enemies (bulletVsEnemies 0 twoTanks)) = [80, 80] \<and>
   bullets (bulletVsEnemies 0 twoTanks) = [bullets twoTanks ! 2]"
proof -
  have h: "0 < length (bullets twoTanks)" "isPlayerBullet (bullets twoTanks ! 0)"
    "\<forall>e \<in> set (enemies twoTanks).
       bulletEnemyCollision (bullets twoTanks ! 0) e \<longrightarrow> damage (bullets twoTanks ! 0) < e_health e"
    by code_simp+
  have v: "length (filter (bulletEnemyCollision (bullets twoTanks ! 0)) (enemies twoTanks)) = 2"
    "\<not> bulletEnemyCollision (bullets twoTanks ! 1) (enemies twoTanks ! 0)"
    "\<not> bulletEnemyCollision (bullets twoTanks ! 1) (enemies twoTanks ! 1)"
    "map e_health
       (map (\<lambda>e. if bulletEnemyCollision (bullets twoTanks ! 0) e
                  then Enemy_takeDamage (damage (bullets twoTanks ! 0)) e else e)
          (enemies twoTanks)) = [80, 80]"
    "drop 2 (bullets twoTanks) = [bullets twoTanks ! 2]"
    by code_simp+
  have "enemies (bulletVsEnemies 0 twoTanks) =
        map (\<lambda>e. if bulletEnemyCollision (bullets twoTanks ! 0) e
                  then Enemy_takeDamage (damage (bullets twoTanks ! 0)) e else e)
          (enemies twoTanks) \<and>
      bullets (bulletVsEnemies 0 twoTanks) = drop 2 (bullets twoTanks)"
    using bulletVsEnemies_survivors [of 0 twoTanks] h v(1) by (simp add: Let_def)
  then show ?thesis
    using h v by simp
qed

text \<open>
  Claim C10. During the player-bullet pass, if one player bullet overlaps two or more
  living enemies in the same \<open>update\<close>, the bullet's damage is applied to every
  overlapping enemy, not only the first, and the splice at the remembered bullet index
  runs once per overlapping enemy, so that the second and later splices can remove
  another bullet. The inner loop does walk over every enemy, but it misses some:
  \<^item> a hit that kills splices the enemy out of the array that \<open>enemies.forEach\<close> is
    walking (line 211); the enemy directly after it moves into the freed index and is
    not visited. In \<open>twoGunners\<close> one bullet of damage 20 overlaps two living enemies of
    health 20: the first dies, the second keeps its 20 health, in the callback
    (positions after the move) and in the whole \<open>update\<close> (positions before it). With
    a third overlapping enemy (\<open>threeGunners\<close>) the first and the third die and the
    second is untouched;
  \<^item> a bullet that the repeated splice removes, or that moves into an index the outer
    \<open>bullets.forEach\<close> has passed, gets no callback. In \<open>volley\<close> the first two bullets
    of a multi-shot both overlap two enemies of health 100 after the move; \<open>update\<close>
    leaves the enemies at 80, the damage of the first bullet alone, and the second
    bullet is gone without having damaged anyone.
\<close>

theorem multi_hit_skips:
  "isPlayerBullet (bullets (twoGunners 294 298) ! 0) \<and>
   map (bulletEnemyCollision (bullets (twoGunners 294 298) ! 0)) (enemies (twoGunners 294 298)) =
     [True, True] \<and>
   map Enemy_isAlive (enemies (twoGunners 294 298)) = [True, True] \<and>
   enemies (bulletVsEnemies 0 (twoGunners 294 298)) = [enemies (twoGunners 294 298) ! 1] \<and>
   map (\<lambda>e. bulletEnemyCollision (moveBullet (bullets (twoGunners 286 300) ! 0))
               (Enemy_update 800 600 e)) (enemies (twoGunners 286 300)) = [True, True] \<and>
   map e_health (enemies (twoGunners 286 300)) = [20, 20] \<and>
   map e_health (enemies (update (twoGunners 286 300))) = [20] \<and>
   enemiesKilled (gameState (update (twoGunners 286 300))) = 1 \<and>
   map (bulletEnemyCollision (bullets (threeGunners 294 298) ! 0)) (enemies (threeGunners 294 298)) =
     [True, True, True] \<and>
   map Enemy_isAlive (enemies (threeGunners 294 298)) = [True, True, True] \<and>
   enemies (bulletVsEnemies 0 (threeGunners 294 298)) = [enemies (threeGunners 294 298) ! 1] \<and>
   map (\<lambda>b. map (\<lambda>e. bulletEnemyCollision (moveBullet b) (Enemy_update 800 600 e))
                 (enemies volley)) (bullets volley) =
     [[True, True], [True, True], [False, False]] \<and>
   map isPlayerBullet (bullets volley) = [True, True, True] \<and>
   map damage (bullets volley) = [20, 20, 20] \<and>
   map e_health (enemies volley) = [100, 100] \<and>
   map e_health (enemies (update volley)) = [80, 80] \<and>
   bullets (update volley) = [moveBullet (bullets volley ! 2)]"
  by code_simp

end
